theory Spec2Isabelle
  imports Main
begin

section \<open>Parsed JSON bodies and Python exceptions\<close>

text \<open>
  A response body after \<^verbatim>\<open>response.json()\<close>: the Python value the JSON text parses to.
  An object is an association list read with \<open>map_of\<close>. JSON numbers are integers here
  (the token endpoint's \<^verbatim>\<open>expires_in\<close> is one); floating point numbers are left out.
\<close>

datatype json =
    JNull
  | JBool bool
  | JInt int
  | JStr string
  | JArr "json list"
  | JObj "(string \<times> json) list"

text \<open>
  The exceptions of \<^verbatim>\<open>errors.py\<close>, each holding what its constructor hands to
  \<^verbatim>\<open>Exception.__init__\<close> (one formatted message), and the built-in exceptions the
  statements of \<^verbatim>\<open>http.py\<close> and \<^verbatim>\<open>errors.py\<close> can raise. \<open>ClientError\<close> stands for a
  failure of the transport (connection, timeout, a body that is not JSON).
\<close>

datatype error =
    NotAuthorized string
  | HTTPException string
  | InvalidClientCredentials string
  | Forbidden string
  | NotFound string
  | ServerError string
  | KeyError string
  | TypeError
  | AttributeError string
  | OverflowError
  | UnicodeEncodeError
  | RuntimeError string
  | ClientError string

text \<open>\<^verbatim>\<open>v[k]\<close> with a string key: a dict looks the key up, every other value raises.\<close>

fun getitem :: "json \<Rightarrow> string \<Rightarrow> error + json" where
  "getitem (JObj kvs) k = (case map_of kvs k of None \<Rightarrow> Inl (KeyError k) | Some v \<Rightarrow> Inr v)"
| "getitem JNull k = Inl TypeError"
| "getitem (JBool b) k = Inl TypeError"
| "getitem (JInt n) k = Inl TypeError"
| "getitem (JStr s) k = Inl TypeError"
| "getitem (JArr xs) k = Inl TypeError"

text \<open>\<^verbatim>\<open>v.get(k)\<close>: \<^verbatim>\<open>None\<close> for a missing key; only a dict has the method.\<close>

fun get_method :: "json \<Rightarrow> string \<Rightarrow> error + json" where
  "get_method (JObj kvs) k = (case map_of kvs k of None \<Rightarrow> Inr JNull | Some v \<Rightarrow> Inr v)"
| "get_method JNull k = Inl (AttributeError ''get'')"
| "get_method (JBool b) k = Inl (AttributeError ''get'')"
| "get_method (JInt n) k = Inl (AttributeError ''get'')"
| "get_method (JStr s) k = Inl (AttributeError ''get'')"
| "get_method (JArr xs) k = Inl (AttributeError ''get'')"

text \<open>
  \<^verbatim>\<open>HTTPException.__init__(self, data, status_code, message=None)\<close>. The parameter \<open>str\<close> is
  Python's built-in \<^verbatim>\<open>str()\<close>, which an f-string applies to each value it formats.
  \<open>Inl\<close> is an exception raised inside the constructor, \<open>Inr\<close> the message handed to
  \<^verbatim>\<open>super().__init__\<close>. In \<^verbatim>\<open>desc := data.get("error_description") is not None\<close> the walrus
  binds the comparison, so \<open>desc\<close> is a boolean and the first branch formats \<^verbatim>\<open>True\<close>.
\<close>

definition HTTPException_init ::
  "(json \<Rightarrow> string) \<Rightarrow> json \<Rightarrow> int \<Rightarrow> string option \<Rightarrow> error + string" where
  "HTTPException_init str data status_code message =
     (case getitem data ''error'' of
        Inl e \<Rightarrow> Inl e
      | Inr err \<Rightarrow>
          let fmt = str (JInt status_code) @ '' '' @ str err in
          (case get_method data ''error_description'' of
             Inl e \<Rightarrow> Inl e
           | Inr d \<Rightarrow>
               let desc = (d \<noteq> JNull) in
               (case (if desc then Inr (fmt @ '': '' @ str (JBool desc))
                      else (case getitem err ''message'' of
                              Inl e \<Rightarrow> Inl e
                            | Inr m \<Rightarrow> Inr (fmt @ '': '' @ str m))) of
                  Inl e \<Rightarrow> Inl e
                | Inr fmt' \<Rightarrow>
                    Inr (case message of
                           None \<Rightarrow> fmt'
                         | Some m \<Rightarrow> fmt' @ '' ('' @ m @ '')''))))"

text \<open>
  \<^verbatim>\<open>raise Cls(data, status)\<close> for \<open>Cls\<close> one of \<^verbatim>\<open>HTTPException\<close> and its subclasses, which
  inherit the constructor: what propagates is the new exception, or the one the
  constructor raised.
\<close>

definition raise_http :: "(json \<Rightarrow> string) \<Rightarrow> (string \<Rightarrow> error) \<Rightarrow> json \<Rightarrow> int \<Rightarrow> error" where
  "raise_http str cls data status =
     (case HTTPException_init str data status None of Inl e \<Rightarrow> e | Inr fmt \<Rightarrow> cls fmt)"

section \<open>Time\<close>

text \<open>
  A \<^verbatim>\<open>datetime\<close> is its number of microseconds since \<^verbatim>\<open>datetime.min\<close>, a \<^verbatim>\<open>timedelta\<close> a
  number of microseconds.
\<close>

definition DATETIME_MAX :: int where
  "DATETIME_MAX = 3652059 * 86400000000 - 1"

text \<open>\<^verbatim>\<open>datetime.timedelta(seconds=v)\<close>; a JSON boolean is a Python \<^verbatim>\<open>bool\<close>, which is an \<^verbatim>\<open>int\<close>.\<close>

definition timedelta_of_int :: "int \<Rightarrow> error + int" where
  "timedelta_of_int n =
     (if \<bar>n div 86400\<bar> \<le> 999999999 then Inr (n * 1000000) else Inl OverflowError)"

fun timedelta :: "json \<Rightarrow> error + int" where
  "timedelta (JInt n) = timedelta_of_int n"
| "timedelta (JBool b) = timedelta_of_int (if b then 1 else 0)"
| "timedelta JNull = Inl TypeError"
| "timedelta (JStr s) = Inl TypeError"
| "timedelta (JArr xs) = Inl TypeError"
| "timedelta (JObj kvs) = Inl TypeError"

text \<open>\<^verbatim>\<open>datetime + timedelta\<close>: a result outside \<^verbatim>\<open>datetime.min .. datetime.max\<close> raises.\<close>

definition datetime_add :: "int \<Rightarrow> int \<Rightarrow> error + int" where
  "datetime_add t d = (if 0 \<le> t + d \<and> t + d \<le> DATETIME_MAX then Inr (t + d) else Inl OverflowError)"

text \<open>
  The \<^verbatim>\<open>.seconds\<close> attribute of a \<^verbatim>\<open>timedelta\<close>: Python normalises a timedelta to days,
  seconds in \<open>0..86399\<close> and microseconds in \<open>0..999999\<close>, the days carrying the sign.
\<close>

definition timedelta_seconds :: "int \<Rightarrow> int" where
  "timedelta_seconds d = (d div 1000000) mod 86400"

section \<open>ASCII and base64\<close>

text \<open>\<^verbatim>\<open>s.encode("ascii")\<close>: the bytes of the string, or \<^verbatim>\<open>UnicodeEncodeError\<close>.\<close>

definition encode_ascii :: "string \<Rightarrow> error + nat list" where
  "encode_ascii s =
     (if list_all (\<lambda>c. (of_char c :: nat) < 128) s then Inr (map of_char s)
      else Inl UnicodeEncodeError)"

definition b64_alphabet :: string where
  "b64_alphabet = ''ABCDEFGHIJKLMNOPQRSTUVWXYZabcdefghijklmnopqrstuvwxyz0123456789+/''"

definition b64_char :: "nat \<Rightarrow> char" where
  "b64_char n = b64_alphabet ! n"

text \<open>\<^verbatim>\<open>base64.b64encode(bs).decode("ascii")\<close>.\<close>

fun b64encode :: "nat list \<Rightarrow> string" where
  "b64encode [] = []"
| "b64encode [a] =
     [b64_char (a div 4), b64_char ((a mod 4) * 16), CHR ''='', CHR ''='']"
| "b64encode [a, b] =
     [b64_char (a div 4), b64_char ((a mod 4) * 16 + b div 16),
      b64_char ((b mod 16) * 4), CHR ''='']"
| "b64encode (a # b # c # bs) =
     [b64_char (a div 4), b64_char ((a mod 4) * 16 + b div 16),
      b64_char ((b mod 16) * 4 + c div 64), b64_char (c mod 64)] @ b64encode bs"

section \<open>The client, the route and the world around them\<close>

text \<open>
  \<^verbatim>\<open>Route\<close>: the constructor stores \<^verbatim>\<open>BASE + path\<close> and turns an empty or missing
  parameter dict into \<^verbatim>\<open>None\<close>.
\<close>

record route =
  path :: string
  method' :: string
  url :: string
  params :: "(string \<times> json) list option"

definition BASE :: string where
  "BASE = ''https://api.spotify.com/v1/''"

definition Route_init :: "string \<Rightarrow> string \<Rightarrow> (string \<times> json) list option \<Rightarrow> route" where
  "Route_init m p ps =
     \<lparr>path = p, method' = m, url = BASE @ p,
      params = (case ps of None \<Rightarrow> None | Some [] \<Rightarrow> None | Some (kv # kvs) \<Rightarrow> Some (kv # kvs))\<rparr>"

text \<open>
  An \<^verbatim>\<open>aiohttp.ClientSession\<close>: which session it is (the number of sessions created
  before it) and whether it has been closed.
\<close>

record session_obj =
  sid :: nat
  is_closed :: bool

text \<open>
  \<^verbatim>\<open>HTTPClient\<close>. The attributes \<^verbatim>\<open>_session\<close>, \<^verbatim>\<open>_access_token\<close> and \<^verbatim>\<open>_expires_at\<close> are not
  set by \<^verbatim>\<open>__init__\<close>: \<open>None\<close> is an attribute the object does not have. \<open>lock_held\<close>
  is the state of \<^verbatim>\<open>self.lock\<close>, an \<^verbatim>\<open>asyncio.Lock\<close>.
\<close>

record http_client =
  client_id :: string
  client_secret :: string
  lock_held :: bool
  session :: "session_obj option"
  access_token :: "json option"
  expires_at :: "int option"

definition HTTPClient_init :: "string \<Rightarrow> string \<Rightarrow> http_client" where
  "HTTPClient_init cid secret =
     \<lparr>client_id = cid, client_secret = secret, lock_held = False,
      session = None, access_token = None, expires_at = None\<rparr>"

definition ACCOUNT_BASE :: string where
  "ACCOUNT_BASE = ''https://accounts.spotify.com/api/''"

text \<open>What goes out on the wire, and what is logged.\<close>

datatype event =
    Post string "(string \<times> string) list" "(string \<times> string) list"
  | Request string string "(string \<times> string) list" "(string \<times> json) list option"

datatype level = DEBUG | ERROR | CRITICAL

datatype logarg = LStr string | LInt int | LJson json | LParams "(string \<times> json) list option"

datatype reply = Response int json | Failed string

text \<open>
  The environment of one run: Python's \<^verbatim>\<open>str()\<close>, the successive readings of
  \<^verbatim>\<open>datetime.utcnow()\<close>, and what the token endpoint and the API answer to the
  \<open>n\<close>-th call made to each (a status with the parsed body, or a transport failure).
\<close>

record env =
  py_str :: "json \<Rightarrow> string"
  utcnow :: "nat \<Rightarrow> int"
  auth_reply :: "nat \<Rightarrow> reply"
  data_reply :: "nat \<Rightarrow> reply"

text \<open>
  The effects so far: how many sessions were created, how often the clock was read, how
  many calls reached each endpoint, every call sent and every log record, oldest first.
\<close>

record world =
  sessions_created :: nat
  clock_reads :: nat
  auth_calls :: nat
  data_calls :: nat
  wire :: "event list"
  logs :: "(level \<times> string \<times> logarg list) list"

definition world_init :: world where
  "world_init =
     \<lparr>sessions_created = 0, clock_reads = 0, auth_calls = 0, data_calls = 0,
      wire = [], logs = []\<rparr>"

definition log_record :: "level \<Rightarrow> string \<Rightarrow> logarg list \<Rightarrow> world \<Rightarrow> world" where
  "log_record lv msg args w = w\<lparr>logs := logs w @ [(lv, msg, args)]\<rparr>"

definition read_clock :: "env \<Rightarrow> world \<Rightarrow> int \<times> world" where
  "read_clock ev w = (utcnow ev (clock_reads w), w\<lparr>clock_reads := Suc (clock_reads w)\<rparr>)"

text \<open>
  \<^verbatim>\<open>self._session.post(...)\<close> and \<^verbatim>\<open>self._session.request(...)\<close> followed by
  \<^verbatim>\<open>response.json()\<close>: aiohttp refuses a closed session with \<^verbatim>\<open>RuntimeError\<close>; an open one
  sends the call and gets the endpoint's next answer.
\<close>

definition session_post ::
  "env \<Rightarrow> session_obj \<Rightarrow> string \<Rightarrow> (string \<times> string) list \<Rightarrow> (string \<times> string) list
     \<Rightarrow> world \<Rightarrow> (error + int \<times> json) \<times> world" where
  "session_post ev s u headers body w =
     (if is_closed s then (Inl (RuntimeError ''Session is closed''), w)
      else
        let w' = w\<lparr>auth_calls := Suc (auth_calls w), wire := wire w @ [Post u headers body]\<rparr>
        in (case auth_reply ev (auth_calls w) of
              Failed m \<Rightarrow> (Inl (ClientError m), w')
            | Response st data \<Rightarrow> (Inr (st, data), w')))"

definition session_request ::
  "env \<Rightarrow> session_obj \<Rightarrow> string \<Rightarrow> string \<Rightarrow> (string \<times> string) list
     \<Rightarrow> (string \<times> json) list option \<Rightarrow> world \<Rightarrow> (error + int \<times> json) \<times> world" where
  "session_request ev s m u headers ps w =
     (if is_closed s then (Inl (RuntimeError ''Session is closed''), w)
      else
        let w' = w\<lparr>data_calls := Suc (data_calls w), wire := wire w @ [Request m u headers ps]\<rparr>
        in (case data_reply ev (data_calls w) of
              Failed e \<Rightarrow> (Inl (ClientError e), w')
            | Response st data \<Rightarrow> (Inr (st, data), w')))"

section \<open>\<^verbatim>\<open>HTTPClient.authorize\<close>, \<^verbatim>\<open>HTTPClient.destroy\<close> and \<^verbatim>\<open>HTTPClient.request\<close>\<close>

text \<open>
  The first statement of \<^verbatim>\<open>authorize\<close>: a client without the attribute \<^verbatim>\<open>_session\<close> gets a
  new open session; one that has the attribute keeps it.
\<close>

definition ensure_session :: "http_client \<Rightarrow> world \<Rightarrow> session_obj \<times> http_client \<times> world" where
  "ensure_session c w =
     (case session c of
        None \<Rightarrow>
          let s = \<lparr>sid = sessions_created w, is_closed = False\<rparr>
          in (s, c\<lparr>session := Some s\<rparr>, w\<lparr>sessions_created := Suc (sessions_created w)\<rparr>)
      | Some s \<Rightarrow> (s, c, w))"

text \<open>
  \<^verbatim>\<open>authorize\<close> returns \<open>Inr ()\<close> when it returns normally and \<open>Inl e\<close> when \<open>e\<close> propagates,
  with the client and the world as it leaves them. The \<^verbatim>\<open>try\<close> block catches
  \<^verbatim>\<open>AssertionError\<close> only, so a \<^verbatim>\<open>KeyError\<close>, \<^verbatim>\<open>TypeError\<close> or \<^verbatim>\<open>OverflowError\<close> of the two
  assignments propagates, the first assignment already done. In the second assignment
  the clock is read before the body is indexed. A status that no test of the handler
  names falls off its end, and the method returns. (The model is of a run with
  assertions enabled.)
\<close>

definition authorize :: "env \<Rightarrow> http_client \<Rightarrow> world \<Rightarrow> (error + unit) \<times> http_client \<times> world" where
  "authorize ev c w =
     (case ensure_session c w of
        (s, c1, w1) \<Rightarrow>
          let auth_url = ACCOUNT_BASE @ ''token/'';
              body = [(''grant_type'', ''client_credentials'')]
          in (case encode_ascii (client_id c1 @ '':'' @ client_secret c1) of
                Inl e \<Rightarrow> (Inl e, c1, w1)
              | Inr encoded \<Rightarrow>
                  let headers = [(''Authorization'', ''Basic '' @ b64encode encoded)] in
                  (case session_post ev s auth_url headers body w1 of
                     (Inl e, w2) \<Rightarrow> (Inl e, c1, w2)
                   | (Inr (status, data), w2) \<Rightarrow>
                       if status = 200 then
                         (case getitem data ''access_token'' of
                            Inl e \<Rightarrow> (Inl e, c1, w2)
                          | Inr tok \<Rightarrow>
                              let c2 = c1\<lparr>access_token := Some tok\<rparr> in
                              (case read_clock ev w2 of
                                 (now, w3) \<Rightarrow>
                                   (case getitem data ''expires_in'' of
                                      Inl e \<Rightarrow> (Inl e, c2, w3)
                                    | Inr secs \<Rightarrow>
                                        (case timedelta secs of
                                           Inl e \<Rightarrow> (Inl e, c2, w3)
                                         | Inr d \<Rightarrow>
                                             (case datetime_add now d of
                                                Inl e \<Rightarrow> (Inl e, c2, w3)
                                              | Inr t \<Rightarrow>
                                                  (Inr (), c2\<lparr>expires_at := Some t\<rparr>, w3))))))
                       else if status \<in> {201, 202, 204, 304, 401, 404} then
                         (Inr (), c1,
                          log_record ERROR ''Received %s with %s on authorization''
                            [LInt status, LJson data] w2)
                       else if status = 400 then
                         (Inl (raise_http (py_str ev) InvalidClientCredentials data status), c1,
                          log_record CRITICAL ''Received %s while trying to authorize: %s''
                            [LInt status, LJson data] w2)
                       else if status = 403 then
                         (Inl (raise_http (py_str ev) HTTPException data status), c1, w2)
                       else if status \<in> {500, 502, 503} then
                         (Inl (raise_http (py_str ev) ServerError data status), c1,
                          log_record CRITICAL
                            ''Server Error: Received %s while trying to authorize: %s''
                            [LInt status, LJson data] w2)
                       else (Inr (), c1, w2))))"

text \<open>
  \<^verbatim>\<open>destroy\<close> reads \<^verbatim>\<open>self._session\<close> with no \<^verbatim>\<open>hasattr\<close> test; a session object is always
  truthy, so the condition is that the session is not closed.
\<close>

definition destroy :: "http_client \<Rightarrow> world \<Rightarrow> (error + unit) \<times> http_client \<times> world" where
  "destroy c w =
     (case session c of
        None \<Rightarrow> (Inl (AttributeError ''_session''), c, w)
      | Some s \<Rightarrow>
          if is_closed s then (Inr (), c, w)
          else (Inr (), c\<lparr>session := Some (s\<lparr>is_closed := True\<rparr>)\<rparr>,
                log_record DEBUG ''Closed aiohttp session'' [] w))"

text \<open>
  The staleness test of \<^verbatim>\<open>request\<close>: \<^verbatim>\<open>utcnow()\<close> is read first, then \<^verbatim>\<open>self._expires_at\<close>
  (which the object may not have); \<^verbatim>\<open>authorize\<close> is called when the \<^verbatim>\<open>.seconds\<close> attribute of
  \<^verbatim>\<open>utcnow() - self._expires_at\<close> is at most 10.
\<close>

definition refresh_if_stale ::
  "env \<Rightarrow> http_client \<Rightarrow> world \<Rightarrow> (error + unit) \<times> http_client \<times> world" where
  "refresh_if_stale ev c w =
     (case read_clock ev w of
        (now, w1) \<Rightarrow>
          (case expires_at c of
             None \<Rightarrow> (Inl (AttributeError ''_expires_at''), c, w1)
           | Some ex \<Rightarrow>
               if timedelta_seconds (now - ex) \<le> 10 then authorize ev c w1
               else (Inr (), c, w1)))"

text \<open>
  The tests of \<^verbatim>\<open>request\<close> that follow the one for 401, in their order. The test of status
  429 has an empty body, so every status continues with the tests after it.
\<close>

definition raise_for_status :: "(json \<Rightarrow> string) \<Rightarrow> int \<Rightarrow> json \<Rightarrow> error" where
  "raise_for_status str status data =
     (if status = 403 then raise_http str Forbidden data status
      else if status = 404 then raise_http str NotFound data status
      else
        let rate_limited = (if status = 429 then () else ()) in
        if status \<in> {500, 502, 503} then raise_http str ServerError data status
        else raise_http str HTTPException data status)"

text \<open>
  \<^verbatim>\<open>request\<close>. The result is \<open>Some (Inr data)\<close> when the call returns \<open>data\<close>,
  \<open>Some (Inl e)\<close> when \<open>e\<close> propagates, and \<open>None\<close> when the call never returns.

  \<^verbatim>\<open>async with self.lock\<close> acquires the lock and releases it when the block is left, by
  \<^verbatim>\<open>return\<close> or by an exception. An \<^verbatim>\<open>asyncio.Lock\<close> has no owner and is not reentrant:
  acquiring a held lock suspends the coroutine until the lock is released. The model
  follows one chain of awaits, in which the lock can only be held by a caller further
  up the same chain, itself suspended on this call: acquiring a held lock never
  returns. The recursive call on a 401 is made inside the block, with the lock held.
\<close>

function request ::
  "env \<Rightarrow> route \<Rightarrow> http_client \<Rightarrow> world \<Rightarrow> (error + json) option \<times> http_client \<times> world" where
  "request ev r c w =
     (case session c of
        None \<Rightarrow>
          (Some (Inl (NotAuthorized ''You need to authorize first before making any requests'')),
           c, w)
      | Some s0 \<Rightarrow>
          (case refresh_if_stale ev c w of
             (Inl e, c2, w2) \<Rightarrow> (Some (Inl e), c2, w2)
           | (Inr u, c2, w2) \<Rightarrow>
               (case access_token c2 of
                  None \<Rightarrow> (Some (Inl (AttributeError ''_access_token'')), c2, w2)
                | Some tok \<Rightarrow>
                    let headers = [(''Authorization'', ''Bearer '' @ py_str ev tok)] in
                    if lock_held c2 then (None, c2, w2)
                    else
                      let c3 = c2\<lparr>lock_held := True\<rparr>;
                          w3 = log_record DEBUG ''Dispatching %s request on %s with %s''
                                 [LStr (method' r), LStr (url r), LParams (params r)] w2
                      in (case session c3 of
                            None \<Rightarrow>
                              (Some (Inl (AttributeError ''_session'')),
                               c3\<lparr>lock_held := False\<rparr>, w3)
                          | Some s \<Rightarrow>
                              (case session_request ev s (method' r) (url r) headers
                                      (params r) w3 of
                                 (Inl e, w4) \<Rightarrow> (Some (Inl e), c3\<lparr>lock_held := False\<rparr>, w4)
                               | (Inr (status, data), w4) \<Rightarrow>
                                   let w5 = log_record DEBUG
                                              ''%s on %s with %s has responded with %s''
                                              [LStr (method' r), LStr (url r),
                                               LParams (params r), LInt status] w4
                                   in
                                   if 200 \<le> status \<and> status < 300 then
                                     (Some (Inr data), c3\<lparr>lock_held := False\<rparr>,
                                      log_record DEBUG ''Received data from (%s) %s: %s''
                                        [LStr (method' r), LStr (url r), LJson data] w5)
                                   else if status = 401 then
                                     (case authorize ev c3 w5 of
                                        (Inl e, c4, w6) \<Rightarrow>
                                          (Some (Inl e), c4\<lparr>lock_held := False\<rparr>, w6)
                                      | (Inr u', c4, w6) \<Rightarrow>
                                          (case request ev r c4 w6 of
                                             (None, c5, w7) \<Rightarrow> (None, c5, w7)
                                           | (Some res, c5, w7) \<Rightarrow>
                                               (Some res, c5\<lparr>lock_held := False\<rparr>, w7)))
                                   else
                                     (Some (Inl (raise_for_status (py_str ev) status data)),
                                      c3\<lparr>lock_held := False\<rparr>, w5))))))"
  by pat_completeness auto

section \<open>Concurrent calls of \<^verbatim>\<open>request\<close>\<close>

text \<open>
  Several \<^verbatim>\<open>request\<close> coroutines of one client run on one event loop: a coroutine runs
  until it awaits, and the loop resumes any coroutine that can go on. A \<open>point\<close> is
  where one call of \<^verbatim>\<open>request\<close> stands between two awaits:
  \<^item> \<open>Start\<close>: called, nothing run yet (line 100);
  \<^item> \<open>Refreshing\<close>: awaiting the \<^verbatim>\<open>authorize()\<close> of the staleness test (line 115);
  \<^item> \<open>Acquiring\<close>: at \<^verbatim>\<open>async with self.lock\<close>, waiting for the lock (line 119);
  \<^item> \<open>In_flight\<close>: inside the block, the data request sent, awaiting the response and
    its body (lines 121-134);
  \<^item> \<open>Reauthorizing\<close>: inside the block after a 401, awaiting \<^verbatim>\<open>authorize()\<close> (line 141);
  \<^item> \<open>Retrying p\<close>: inside the block, awaiting the recursive \<^verbatim>\<open>request\<close>, which stands at
    \<open>p\<close> (line 142);
  \<^item> \<open>Finished\<close>: returned or raised.
  A \<open>turn\<close> is how the step a call takes next turns out: it raises (also by
  cancellation), the token is found stale, it goes on normally, or the response is a
  401. The tokens, bodies and routes play no part in where the lock is taken and given
  back and are left out.
\<close>

datatype point =
    Start
  | Refreshing
  | Acquiring
  | In_flight
  | Reauthorizing
  | Retrying point
  | Finished

datatype turn = Raises | Stale | Continues | Answer_401

text \<open>
  One step of one call, on the state \<open>l\<close> of the lock (held or not). The lock is taken
  by the step from \<open>Acquiring\<close> to \<open>In_flight\<close>, which needs it free; leaving the block, by
  \<^verbatim>\<open>return\<close> or by an exception, gives it back. The steps of a recursive call are those of
  any call; when it has finished, the outer call leaves its block. A turn that does not
  apply to a point leaves the call where it is.
\<close>

fun advance :: "turn \<Rightarrow> bool \<Rightarrow> point \<Rightarrow> bool \<times> point" where
  "advance Raises l Start = (l, Finished)"
| "advance Stale l Start = (l, Refreshing)"
| "advance Continues l Start = (l, Acquiring)"
| "advance Raises l Refreshing = (l, Finished)"
| "advance Continues l Refreshing = (l, Acquiring)"
| "advance Raises l Acquiring = (l, Finished)"
| "advance Continues l Acquiring = (if l then (l, Acquiring) else (True, In_flight))"
| "advance Raises l In_flight = (False, Finished)"
| "advance Continues l In_flight = (False, Finished)"
| "advance Answer_401 l In_flight = (l, Reauthorizing)"
| "advance Raises l Reauthorizing = (False, Finished)"
| "advance Continues l Reauthorizing = (l, Retrying Start)"
| "advance t l (Retrying Finished) = (False, Finished)"
| "advance t l (Retrying p) = (case advance t l p of (l', p') \<Rightarrow> (l', Retrying p'))"
| "advance t l p = (l, p)"

text \<open>
  The client's lock with the calls in progress; the event loop lets call \<open>i\<close> take one
  step; a schedule is a list of such choices.
\<close>

fun fire :: "nat \<times> turn \<Rightarrow> bool \<times> point list \<Rightarrow> bool \<times> point list" where
  "fire (i, t) (l, ps) =
     (if i < length ps then (case advance t l (ps ! i) of (l', p') \<Rightarrow> (l', ps[i := p']))
      else (l, ps))"

fun run :: "(nat \<times> turn) list \<Rightarrow> bool \<times> point list \<Rightarrow> bool \<times> point list" where
  "run [] s = s"
| "run (x # xs) s = run xs (fire x s)"

text \<open>
  A call has a data request on the wire at \<open>In_flight\<close>; it is inside the block of
  \<^verbatim>\<open>async with self.lock\<close> from \<open>In_flight\<close> until it finishes.
\<close>

fun on_wire :: "point \<Rightarrow> bool" where
  "on_wire In_flight = True"
| "on_wire (Retrying p) = on_wire p"
| "on_wire p = False"

fun in_block :: "point \<Rightarrow> bool" where
  "in_block In_flight = True"
| "in_block Reauthorizing = True"
| "in_block (Retrying p) = True"
| "in_block p = False"

text \<open>
  The invariant of the lock: it is held exactly when one call is inside the block, and
  a recursive call is never inside the block itself.
\<close>

fun calm :: "point \<Rightarrow> bool" where
  "calm (Retrying p) = (\<not> in_block p)"
| "calm p = True"

definition lock_discipline :: "bool \<times> point list \<Rightarrow> bool" where
  "lock_discipline s =
     (case s of (l, ps) \<Rightarrow>
        length (filter in_block ps) = (if l then 1 else 0) \<and> list_all calm ps)"

section \<open>Example runs\<close>

text \<open>
  A rendering of values for the examples below. It is Python's \<^verbatim>\<open>str()\<close> on integers,
  booleans, \<^verbatim>\<open>None\<close> and strings, and on lists and dicts built from them whose strings need
  no escaping and whose keys are distinct. The theorems hold for every \<open>py_str\<close>.
\<close>

fun digits :: "nat \<Rightarrow> string" where
  "digits n =
     (if n < 10 then [''0123456789'' ! n] else digits (n div 10) @ [''0123456789'' ! (n mod 10)])"

definition str_int :: "int \<Rightarrow> string" where
  "str_int n = (if n < 0 then ''-'' @ digits (nat (- n)) else digits (nat n))"

fun repr :: "json \<Rightarrow> string"
  and repr_items :: "json list \<Rightarrow> string"
  and repr_pairs :: "(string \<times> json) list \<Rightarrow> string" where
  "repr JNull = ''None''"
| "repr (JBool b) = (if b then ''True'' else ''False'')"
| "repr (JInt n) = str_int n"
| "repr (JStr s) = [CHR 0x27] @ s @ [CHR 0x27]"
| "repr (JArr xs) = ''['' @ repr_items xs @ '']''"
| "repr (JObj kvs) = ''{'' @ repr_pairs kvs @ ''}''"
| "repr_items [] = []"
| "repr_items [x] = repr x"
| "repr_items (x # y # xs) = repr x @ '', '' @ repr_items (y # xs)"
| "repr_pairs [] = []"
| "repr_pairs [(k, v)] = [CHR 0x27] @ k @ [CHR 0x27] @ '': '' @ repr v"
| "repr_pairs ((k, v) # kv # kvs) =
     [CHR 0x27] @ k @ [CHR 0x27] @ '': '' @ repr v @ '', '' @ repr_pairs (kv # kvs)"

definition str_example :: "json \<Rightarrow> string" where
  "str_example v = (case v of JStr s \<Rightarrow> s | _ \<Rightarrow> repr v)"

text \<open>Scripted endpoints and a scripted clock: the \<open>n\<close>-th entry answers the \<open>n\<close>-th call.\<close>

fun script :: "reply list \<Rightarrow> nat \<Rightarrow> reply" where
  "script [] n = Failed ''connection refused''"
| "script (x # xs) 0 = x"
| "script (x # xs) (Suc n) = script xs n"

text \<open>\<open>T0\<close> is 2021-01-01T00:00:00; the clock stays at its last scripted reading.\<close>

definition T0 :: int where
  "T0 = 63745056000000000"

fun readings :: "int list \<Rightarrow> nat \<Rightarrow> int" where
  "readings [] n = T0"
| "readings [t] n = T0 + t * 1000000"
| "readings (t # t' # ts) 0 = T0 + t * 1000000"
| "readings (t # t' # ts) (Suc n) = readings (t' # ts) n"

definition example_env :: "int list \<Rightarrow> reply list \<Rightarrow> reply list \<Rightarrow> env" where
  "example_env ts auths datas =
     \<lparr>py_str = str_example, utcnow = readings ts, auth_reply = script auths,
      data_reply = script datas\<rparr>"

definition token_body :: "string \<Rightarrow> int \<Rightarrow> json" where
  "token_body tok secs =
     JObj [(''access_token'', JStr tok), (''token_type'', JStr ''Bearer''),
           (''expires_in'', JInt secs)]"

definition error_object :: "int \<Rightarrow> string \<Rightarrow> json" where
  "error_object st msg = JObj [(''error'', JObj [(''status'', JInt st), (''message'', JStr msg)])]"

definition auth_error_body :: "string \<Rightarrow> string \<Rightarrow> json" where
  "auth_error_body err desc = JObj [(''error'', JStr err), (''error_description'', JStr desc)]"

definition track_body :: json where
  "track_body = JObj [(''id'', JStr ''X''), (''name'', JStr ''Song'')]"

text \<open>\<^verbatim>\<open>get_track("X")\<close> builds this route.\<close>

definition track_route :: route where
  "track_route = Route_init ''GET'' ''tracks/X'' (Some [])"

definition client0 :: http_client where
  "client0 = HTTPClient_init ''id'' ''secret''"

text \<open>The client after one successful \<^verbatim>\<open>authorize\<close> at \<open>T0\<close>: token \<^verbatim>\<open>T1\<close>, valid for 3600 seconds.\<close>

definition client1 :: http_client where
  "client1 =
     \<lparr>client_id = ''id'', client_secret = ''secret'', lock_held = False,
      session = Some \<lparr>sid = 0, is_closed = False\<rparr>,
      access_token = Some (JStr ''T1''), expires_at = Some (T0 + 3600 * 1000000)\<rparr>"

text \<open>
  An environment for one \<^verbatim>\<open>request\<close> of the client that holds token \<^verbatim>\<open>T1\<close>: the clock reads
  \<open>T0 + 10\<close> seconds and the API answers with the given status and body.
\<close>

definition status_env :: "int \<Rightarrow> json \<Rightarrow> env" where
  "status_env st body = example_env [10] [] [Response st body]"

section \<open>Conditions on a call\<close>

text \<open>
  An \<^verbatim>\<open>authorize\<close> call reaches the token endpoint when the credentials encode as ASCII
  and the session it posts on, the one the client has or the one it is about to
  create, is not closed.
\<close>

definition ascii_credentials :: "http_client \<Rightarrow> bool" where
  "ascii_credentials c =
     list_all (\<lambda>ch. (of_char ch :: nat) < 128) (client_id c @ '':'' @ client_secret c)"

definition session_usable :: "http_client \<Rightarrow> bool" where
  "session_usable c = (case session c of None \<Rightarrow> True | Some s \<Rightarrow> \<not> is_closed s)"

text \<open>
  The expiry \<open>t + n\<close> seconds of a token issued at \<open>t\<close> is a \<^verbatim>\<open>datetime\<close>: \<^verbatim>\<open>timedelta\<close> accepts
  \<open>n\<close> seconds and the sum does not leave \<^verbatim>\<open>datetime.min .. datetime.max\<close>.
\<close>

definition expiry_in_range :: "int \<Rightarrow> int \<Rightarrow> bool" where
  "expiry_in_range t n =
     (\<bar>n div 86400\<bar> \<le> 999999999 \<and> 0 \<le> t + n * 1000000 \<and> t + n * 1000000 \<le> DATETIME_MAX)"

section \<open>Termination of \<^verbatim>\<open>request\<close>\<close>

lemma authorize_lock_held:
  "authorize ev c w = (res, c', w') \<Longrightarrow> lock_held c' = lock_held c"
  by (auto simp: authorize_def ensure_session_def Let_def
      split: option.splits sum.splits prod.splits if_splits)

lemma refresh_if_stale_lock_held:
  "refresh_if_stale ev c w = (res, c', w') \<Longrightarrow> lock_held c' = lock_held c"
  by (auto simp: refresh_if_stale_def read_clock_def
      split: option.splits if_splits dest: authorize_lock_held)

text \<open>
  The recursive call is made with the lock held, and a call that finds the lock held
  makes no further call.
\<close>

termination request
proof (relation "measure (\<lambda>(ev, r, c, w). if lock_held c then 0 else 1)", goal_cases)
  case 1
  show ?case by simp
next
  case prems: 2
  then show ?case
    by (auto dest: authorize_lock_held [OF sym] refresh_if_stale_lock_held [OF sym])
qed

declare request.simps [simp del]

section \<open>Facts about \<^verbatim>\<open>authorize\<close>\<close>

lemma getitem_Inl: "getitem v k = Inl e \<Longrightarrow> e = KeyError k \<or> e = TypeError"
  by (cases v) (auto split: option.splits)

lemma get_method_Inl: "get_method v k = Inl e \<Longrightarrow> e = AttributeError ''get''"
  by (cases v) (auto split: option.splits)

lemma HTTPException_init_Inl:
  "HTTPException_init str data st msg = Inl e \<Longrightarrow>
     (\<exists>k. e = KeyError k) \<or> e = TypeError \<or> e = AttributeError ''get''"
  by (auto simp: HTTPException_init_def Let_def split: sum.splits if_splits
      dest: getitem_Inl get_method_Inl)

lemma raise_http_cases:
  "(\<exists>m. raise_http str cls data st = cls m) \<or> (\<exists>k. raise_http str cls data st = KeyError k) \<or>
   raise_http str cls data st = TypeError \<or> raise_http str cls data st = AttributeError ''get''"
  by (auto simp: raise_http_def split: sum.splits dest: HTTPException_init_Inl)

lemma raise_http_Inr:
  "HTTPException_init str data st None = Inr m \<Longrightarrow> raise_http str cls data st = cls m"
  by (simp add: raise_http_def)

text \<open>What \<^verbatim>\<open>authorize\<close> leaves alone: an existing session, the lock, the count of data calls.\<close>

lemma authorize_session_Some:
  "session c = Some s \<Longrightarrow> authorize ev c w = (res, c', w') \<Longrightarrow>
     session c' = Some s \<and> sessions_created w' = sessions_created w"
  by (auto simp: authorize_def ensure_session_def Let_def session_post_def read_clock_def
      log_record_def split: sum.splits prod.splits if_splits reply.splits)

lemma authorize_session_None:
  "session c = None \<Longrightarrow> authorize ev c w = (res, c', w') \<Longrightarrow>
     session c' = Some \<lparr>sid = sessions_created w, is_closed = False\<rparr> \<and>
     sessions_created w' = Suc (sessions_created w)"
  by (auto simp: authorize_def ensure_session_def Let_def session_post_def read_clock_def
      log_record_def split: sum.splits prod.splits if_splits reply.splits)

lemma authorize_data_calls:
  "authorize ev c w = (res, c', w') \<Longrightarrow> data_calls w' = data_calls w"
  by (auto simp: authorize_def ensure_session_def Let_def session_post_def read_clock_def
      log_record_def split: option.splits sum.splits prod.splits if_splits reply.splits)

text \<open>No statement of \<^verbatim>\<open>authorize\<close> raises \<^verbatim>\<open>NotAuthorized\<close>.\<close>

lemma getitem_not_NotAuthorized [simp]: "getitem v k \<noteq> Inl (NotAuthorized m)"
  by (cases v) (auto split: option.splits)

lemma timedelta_not_NotAuthorized [simp]: "timedelta v \<noteq> Inl (NotAuthorized m)"
  by (cases v) (auto simp: timedelta_of_int_def)

lemma datetime_add_not_NotAuthorized [simp]: "datetime_add t d \<noteq> Inl (NotAuthorized m)"
  by (simp add: datetime_add_def)

lemma encode_ascii_not_NotAuthorized [simp]: "encode_ascii s \<noteq> Inl (NotAuthorized m)"
  by (simp add: encode_ascii_def)

lemma session_post_not_NotAuthorized [simp]:
  "session_post ev s u h b w \<noteq> (Inl (NotAuthorized m), w')"
  by (simp add: session_post_def Let_def split: reply.splits)

lemma raise_http_not_NotAuthorized:
  "(\<And>x. cls x \<noteq> NotAuthorized m) \<Longrightarrow> raise_http str cls data st \<noteq> NotAuthorized m"
  using raise_http_cases [of str cls data st] by auto

lemma authorize_not_NotAuthorized:
  "authorize ev c w = (res, c', w') \<Longrightarrow> res \<noteq> Inl (NotAuthorized m)"
  by (auto simp: authorize_def Let_def raise_http_not_NotAuthorized
      split: sum.splits prod.splits if_splits)

text \<open>
  A call that reaches the token endpoint and gets an answer: the session is created if
  need be, and the rest of \<^verbatim>\<open>authorize\<close> runs on the status and the body.
\<close>

lemma ensure_session_keeps:
  assumes "ensure_session c w = (s, c1, w1)"
  shows "access_token c1 = access_token c" and "expires_at c1 = expires_at c"
    and "client_id c1 = client_id c" and "client_secret c1 = client_secret c"
    and "clock_reads w1 = clock_reads w" and "logs w1 = logs w"
    and "auth_calls w1 = auth_calls w" and "data_calls w1 = data_calls w"
  using assms by (auto simp: ensure_session_def Let_def split: option.splits)

lemma authorize_received:
  assumes "ascii_credentials c" and "session_usable c"
    and "auth_reply ev (auth_calls w) = Response status data"
    and "ensure_session c w = (s, c1, w1)"
    and "w2 = w1\<lparr>auth_calls := Suc (auth_calls w1),
                  wire := wire w1 @
                    [Post (ACCOUNT_BASE @ ''token/'')
                       [(''Authorization'', ''Basic '' @
                           b64encode (map of_char (client_id c @ '':'' @ client_secret c)))]
                       [(''grant_type'', ''client_credentials'')]]\<rparr>"
  shows "authorize ev c w =
       (if status = 200 then
          (case getitem data ''access_token'' of
             Inl e \<Rightarrow> (Inl e, c1, w2)
           | Inr tok \<Rightarrow>
               let c2 = c1\<lparr>access_token := Some tok\<rparr> in
               (case read_clock ev w2 of
                  (now, w3) \<Rightarrow>
                    (case getitem data ''expires_in'' of
                       Inl e \<Rightarrow> (Inl e, c2, w3)
                     | Inr secs \<Rightarrow>
                         (case timedelta secs of
                            Inl e \<Rightarrow> (Inl e, c2, w3)
                          | Inr d \<Rightarrow>
                              (case datetime_add now d of
                                 Inl e \<Rightarrow> (Inl e, c2, w3)
                               | Inr t \<Rightarrow> (Inr (), c2\<lparr>expires_at := Some t\<rparr>, w3))))))
        else if status \<in> {201, 202, 204, 304, 401, 404} then
          (Inr (), c1,
           log_record ERROR ''Received %s with %s on authorization'' [LInt status, LJson data] w2)
        else if status = 400 then
          (Inl (raise_http (py_str ev) InvalidClientCredentials data status), c1,
           log_record CRITICAL ''Received %s while trying to authorize: %s''
             [LInt status, LJson data] w2)
        else if status = 403 then
          (Inl (raise_http (py_str ev) HTTPException data status), c1, w2)
        else if status \<in> {500, 502, 503} then
          (Inl (raise_http (py_str ev) ServerError data status), c1,
           log_record CRITICAL ''Server Error: Received %s while trying to authorize: %s''
             [LInt status, LJson data] w2)
        else (Inr (), c1, w2))"
proof -
  have s: "\<not> is_closed s"
    using assms(2,4)
    by (auto simp: session_usable_def ensure_session_def Let_def split: option.splits)
  have enc: "encode_ascii (client_id c1 @ '':'' @ client_secret c1) =
               Inr (map of_char (client_id c @ '':'' @ client_secret c))"
    using assms(1) ensure_session_keeps(3,4) [OF assms(4)]
    by (simp add: encode_ascii_def ascii_credentials_def)
  have post: "session_post ev s u hs b w1 =
                (Inr (status, data),
                 w1\<lparr>auth_calls := Suc (auth_calls w1), wire := wire w1 @ [Post u hs b]\<rparr>)"
    for u hs b
    using s assms(3) ensure_session_keeps(7) [OF assms(4)]
    by (simp add: session_post_def Let_def)
  show ?thesis
    unfolding authorize_def assms(4) assms(5)
    by (simp only: prod.case Let_def enc sum.case post)
qed

section \<open>Facts about \<^verbatim>\<open>request\<close>\<close>

lemma refresh_if_stale_session:
  "session c = Some s \<Longrightarrow> refresh_if_stale ev c w = (res, c', w') \<Longrightarrow> session c' = Some s"
  by (auto simp: refresh_if_stale_def read_clock_def split: option.splits if_splits
      dest: authorize_session_Some)

lemma refresh_if_stale_data_calls:
  "refresh_if_stale ev c w = (res, c', w') \<Longrightarrow> data_calls w' = data_calls w"
  by (auto simp: refresh_if_stale_def read_clock_def split: option.splits if_splits
      dest: authorize_data_calls)

lemma refresh_if_stale_not_NotAuthorized:
  "refresh_if_stale ev c w = (res, c', w') \<Longrightarrow> res \<noteq> Inl (NotAuthorized m)"
  by (auto simp: refresh_if_stale_def read_clock_def split: option.splits if_splits
      dest: authorize_not_NotAuthorized)

lemma request_unauthorized:
  "session c = None \<Longrightarrow>
     request ev r c w =
       (Some (Inl (NotAuthorized ''You need to authorize first before making any requests'')), c, w)"
  by (subst request.simps) simp

lemma request_lock_held:
  assumes "session c = Some s" and "lock_held c"
  shows "request ev r c w =
     (case refresh_if_stale ev c w of
        (Inl e, c2, w2) \<Rightarrow> (Some (Inl e), c2, w2)
      | (Inr u, c2, w2) \<Rightarrow>
          (case access_token c2 of
             None \<Rightarrow> (Some (Inl (AttributeError ''_access_token'')), c2, w2)
           | Some tok \<Rightarrow> (None, c2, w2)))"
proof -
  obtain res c2 w2 where rf: "refresh_if_stale ev c w = (res, c2, w2)"
    by (cases "refresh_if_stale ev c w") auto
  from refresh_if_stale_lock_held [OF rf] assms(2) have "lock_held c2" by simp
  then show ?thesis
    by (subst request.simps) (simp add: assms(1) rf Let_def split: sum.splits option.splits)
qed

lemma request_lock_held_facts:
  assumes "session c = Some s" and "lock_held c" and "request ev r c w = (res, c', w')"
  shows "session c' = Some s" and "data_calls w' = data_calls w" and "lock_held c'"
    and "res \<noteq> Some (Inr d)" and "res \<noteq> Some (Inl (NotAuthorized m))"
proof -
  obtain rr c2 w2 where rf: "refresh_if_stale ev c w = (rr, c2, w2)"
    by (cases "refresh_if_stale ev c w") auto
  note facts = refresh_if_stale_session [OF assms(1) rf] refresh_if_stale_data_calls [OF rf]
    refresh_if_stale_lock_held [OF rf] refresh_if_stale_not_NotAuthorized [OF rf]
  from assms(3) have *: "(res, c', w') =
     (case rr of
        Inl e \<Rightarrow> (Some (Inl e), c2, w2)
      | Inr u \<Rightarrow>
          (case access_token c2 of
             None \<Rightarrow> (Some (Inl (AttributeError ''_access_token'')), c2, w2)
           | Some tok \<Rightarrow> (None, c2, w2)))"
    by (cases rr) (simp_all add: request_lock_held [OF assms(1,2)] rf)
  from * facts assms(2) show "session c' = Some s" and "data_calls w' = data_calls w"
    and "lock_held c'" and "res \<noteq> Some (Inr d)" and "res \<noteq> Some (Inl (NotAuthorized m))"
    by (auto split: sum.splits option.splits)
qed


lemma raise_for_status_not_NotAuthorized:
  "raise_for_status str status data \<noteq> NotAuthorized m"
  by (simp add: raise_for_status_def Let_def raise_http_not_NotAuthorized)

lemma session_request_cases:
  assumes "session_request ev s m u hs ps w = (res, w')"
  shows "(is_closed s \<and> res = Inl (RuntimeError ''Session is closed'') \<and> w' = w) \<or>
         (\<not> is_closed s \<and> w' = w\<lparr>data_calls := Suc (data_calls w),
                                     wire := wire w @ [Request m u hs ps]\<rparr> \<and>
          (case data_reply ev (data_calls w) of
             Failed e \<Rightarrow> res = Inl (ClientError e)
           | Response st data \<Rightarrow> res = Inr (st, data)))"
  using assms by (auto simp: session_request_def Let_def split: if_splits reply.splits)

lemma request_session:
  assumes "request ev r c w = (res, c', w')"
  shows "session c' = session c"
proof (cases "session c")
  case None
  with assms show ?thesis by (simp add: request_unauthorized)
next
  case (Some s)
  show ?thesis
  proof (cases "lock_held c")
    case True
    from request_lock_held_facts(1) [OF Some True assms] Some show ?thesis by simp
  next
    case False
    obtain rr c2 w2 where rf: "refresh_if_stale ev c w = (rr, c2, w2)"
      by (cases "refresh_if_stale ev c w") auto
    note s2 = refresh_if_stale_session [OF Some rf]
    have inner: "session c5 = Some s"
      if "authorize ev (c2\<lparr>lock_held := True\<rparr>) w5 = (ra, c4, w6)"
        and "request ev r c4 w6 = (rb, c5, w7)" for w5 ra c4 w6 rb c5 w7
    proof -
      from authorize_session_Some [OF _ that(1)] s2 have "session c4 = Some s" by simp
      moreover from authorize_lock_held [OF that(1)] have "lock_held c4" by simp
      ultimately show ?thesis using request_lock_held_facts(1) [OF _ _ that(2)] by simp
    qed
    have auth: "session c4 = Some s"
      if "authorize ev (c2\<lparr>lock_held := True\<rparr>) w5 = (ra, c4, w6)" for w5 ra c4 w6
      using authorize_session_Some [OF _ that] s2 by simp
    from assms s2 show ?thesis
      by (subst (asm) request.simps)
        (auto simp: Some rf Let_def split: sum.splits option.splits prod.splits if_splits
          dest: inner auth)
  qed
qed

lemma session_request_not_NotAuthorized [simp]:
  "session_request ev s m u hs ps w \<noteq> (Inl (NotAuthorized x), w')"
  by (simp add: session_request_def Let_def split: reply.splits)

lemma request_not_NotAuthorized:
  assumes "session c = Some s" and "request ev r c w = (res, c', w')"
  shows "res \<noteq> Some (Inl (NotAuthorized m))"
proof (cases "lock_held c")
  case True
  from request_lock_held_facts(5) [OF assms(1) True assms(2)] show ?thesis .
next
  case False
  obtain rr c2 w2 where rf: "refresh_if_stale ev c w = (rr, c2, w2)"
    by (cases "refresh_if_stale ev c w") auto
  note s2 = refresh_if_stale_session [OF assms(1) rf]
  note n2 = refresh_if_stale_not_NotAuthorized [OF rf, of m]
  have inner: "rb \<noteq> Some (Inl (NotAuthorized m))"
    if "authorize ev (c2\<lparr>lock_held := True\<rparr>) w5 = (ra, c4, w6)"
      and "request ev r c4 w6 = (rb, c5, w7)" for w5 ra c4 w6 rb c5 w7
  proof -
    from authorize_session_Some [OF _ that(1)] s2 have "session c4 = Some s" by simp
    moreover from authorize_lock_held [OF that(1)] have "lock_held c4" by simp
    ultimately show ?thesis using request_lock_held_facts(5) [OF _ _ that(2)] by simp
  qed
  from assms(2) s2 n2 show ?thesis
    by (subst (asm) request.simps)
      (auto simp: assms(1) rf Let_def raise_for_status_not_NotAuthorized
        split: sum.splits option.splits prod.splits if_splits
        dest: inner authorize_not_NotAuthorized)
qed

text \<open>
  A call that sends a data request and gets an answer sends exactly one: a 2xx returns
  the body, a 401 never returns a body, and every other status raises what the tests
  after the 401 test select.
\<close>

lemma request_dispatched:
  assumes "request ev r c w = (res, c', w')"
    and "data_calls w' \<noteq> data_calls w"
    and "data_reply ev (data_calls w) = Response status data"
  shows "data_calls w' = Suc (data_calls w) \<and>
         (if status = 401 then \<forall>d. res \<noteq> Some (Inr d)
          else if 200 \<le> status \<and> status < 300 then res = Some (Inr data)
          else res = Some (Inl (raise_for_status (py_str ev) status data)))"
proof (cases "session c")
  case None
  with assms(1,2) show ?thesis by (simp add: request_unauthorized)
next
  case (Some s)
  show ?thesis
  proof (cases "lock_held c")
    case True
    from request_lock_held_facts(2) [OF Some True assms(1)] assms(2) show ?thesis by simp
  next
    case False
    obtain rr c2 w2 where rf: "refresh_if_stale ev c w = (rr, c2, w2)"
      by (cases "refresh_if_stale ev c w") auto
    note s2 = refresh_if_stale_session [OF Some rf]
    note d2 = refresh_if_stale_data_calls [OF rf]
    have inner: "data_calls w7 = data_calls w5 \<and> rb \<noteq> Some (Inr d)"
      if "authorize ev (c2\<lparr>lock_held := True\<rparr>) w5 = (Inr u, c4, w6)"
        and "request ev r c4 w6 = (rb, c5, w7)" for w5 u c4 w6 rb c5 w7 d
    proof -
      from authorize_session_Some [OF _ that(1)] s2 have "session c4 = Some s" by simp
      moreover from authorize_lock_held [OF that(1)] have "lock_held c4" by simp
      ultimately show ?thesis
        using request_lock_held_facts(2,4) [OF _ _ that(2)] authorize_data_calls [OF that(1)]
        by simp
    qed
    from assms s2 d2 show ?thesis
      by (subst (asm) request.simps)
        (auto simp: Some rf Let_def session_request_def log_record_def
          split: sum.splits option.splits prod.splits if_splits reply.splits
          dest: inner authorize_data_calls)
  qed
qed

section \<open>\<^verbatim>\<open>destroy\<close>\<close>

text \<open>
  Claim C5 says that \<^verbatim>\<open>destroy()\<close> never raises, also when it is called before any
  \<^verbatim>\<open>authorize()\<close>. On a client that was only constructed, \<^verbatim>\<open>destroy\<close> raises
  \<^verbatim>\<open>AttributeError\<close>: the object has no attribute \<^verbatim>\<open>_session\<close> yet, and \<^verbatim>\<open>destroy\<close> reads it
  without the \<^verbatim>\<open>hasattr\<close> test that \<^verbatim>\<open>request\<close> and \<^verbatim>\<open>authorize\<close> make.
\<close>

theorem destroy_before_authorize:
  "destroy (HTTPClient_init cid secret) w =
     (Inl (AttributeError ''_session''), HTTPClient_init cid secret, w)"
  by (simp add: destroy_def HTTPClient_init_def)

text \<open>
  Once a session exists the rest of the claim holds: \<^verbatim>\<open>destroy\<close> returns normally, leaves
  the session closed, and a second call changes nothing.
\<close>

lemma destroy_with_session:
  assumes "session c = Some s" and "destroy c w = (res, c', w')"
  shows "res = Inr ()" and "session c' = Some (s\<lparr>is_closed := True\<rparr>)"
    and "destroy c' w' = (Inr (), c', w')"
  using assms by (auto simp: destroy_def split: if_splits)

section \<open>\<^verbatim>\<open>authorize\<close>: the answers of the token endpoint\<close>

text \<open>
  Claim C9: an \<^verbatim>\<open>authorize()\<close> call that receives status 201, 202, 204, 304, 401 or 404
  logs the response (one record, level ERROR, with the status and the body), returns
  normally, and leaves \<^verbatim>\<open>access_token\<close> and \<^verbatim>\<open>expires_at\<close> as they were, whatever they were.
\<close>

theorem authorize_soft_failure:
  assumes "ascii_credentials c" and "session_usable c"
    and "auth_reply ev (auth_calls w) = Response status data"
    and "status \<in> {201, 202, 204, 304, 401, 404}"
  shows "case authorize ev c w of
           (res, c', w') \<Rightarrow>
             res = Inr () \<and> access_token c' = access_token c \<and> expires_at c' = expires_at c \<and>
             logs w' = logs w @ [(ERROR, ''Received %s with %s on authorization'',
                                  [LInt status, LJson data])]"
proof -
  obtain s c1 w1 where es: "ensure_session c w = (s, c1, w1)"
    by (cases "ensure_session c w") auto
  show ?thesis
    using assms(4) ensure_session_keeps(1,2,6) [OF es]
    by (auto simp: authorize_received [OF assms(1-3) es refl] log_record_def)
qed

text \<open>
  The client holding token \<^verbatim>\<open>T1\<close> gets a 401 from the token endpoint: the call returns,
  the token and its expiry stay, and the one log record is the error.
\<close>

theorem authorize_soft_failure_witness:
  "case authorize
          (example_env [] [Response 401 (auth_error_body ''invalid_client'' ''Invalid client'')] [])
          client1 world_init of
     (res, c', w') \<Rightarrow>
       res = Inr () \<and> access_token c' = Some (JStr ''T1'') \<and>
       expires_at c' = Some (T0 + 3600 * 1000000) \<and>
       logs w' = [(ERROR, ''Received %s with %s on authorization'',
                   [LInt 401, LJson (auth_error_body ''invalid_client'' ''Invalid client'')])]"
proof -
  let ?ev = "example_env [] [Response 401 (auth_error_body ''invalid_client'' ''Invalid client'')] []"
  have h1: "ascii_credentials client1" by code_simp
  have h2: "session_usable client1" by code_simp
  have h3: "auth_reply ?ev (auth_calls world_init) =
              Response 401 (auth_error_body ''invalid_client'' ''Invalid client'')"
    by (simp add: example_env_def world_init_def)
  have h4: "(401::int) \<in> {201, 202, 204, 304, 401, 404}" by simp
  from authorize_soft_failure [OF h1 h2 h3 h4] show ?thesis
    by (simp add: client1_def world_init_def)
qed

text \<open>
  What the two answers the token endpoint is documented to give do to the token state.
  A 200 whose body holds \<^verbatim>\<open>access_token\<close> and an integer \<^verbatim>\<open>expires_in\<close> with an expiry that is
  a \<^verbatim>\<open>datetime\<close> stores the token and sets \<^verbatim>\<open>expires_at\<close> to the issue time (the clock
  reading of the call) plus \<^verbatim>\<open>expires_in\<close> seconds, whatever the token state was. On a 400 an
  exception always propagates and \<^verbatim>\<open>access_token\<close> and \<^verbatim>\<open>expires_at\<close> stay as they were; the
  exception is \<^verbatim>\<open>InvalidClientCredentials\<close> with message \<open>m\<close> whenever the constructor formats
  \<open>m\<close> from the body.
\<close>

lemma authorize_200_and_400:
  assumes "ascii_credentials c" and "session_usable c"
  shows "(auth_reply ev (auth_calls w) = Response 200 data \<longrightarrow>
          getitem data ''access_token'' = Inr tok \<longrightarrow>
          getitem data ''expires_in'' = Inr (JInt n) \<longrightarrow>
          expiry_in_range (utcnow ev (clock_reads w)) n \<longrightarrow>
          (case authorize ev c w of
             (res, c', w') \<Rightarrow>
               res = Inr () \<and> access_token c' = Some tok \<and>
               expires_at c' = Some (utcnow ev (clock_reads w) + n * 1000000))) \<and>
         (auth_reply ev (auth_calls w) = Response 400 data \<longrightarrow>
          (case authorize ev c w of
             (res, c', w') \<Rightarrow>
               (\<exists>e. res = Inl e) \<and>
               (\<forall>m. HTTPException_init (py_str ev) data 400 None = Inr m \<longrightarrow>
                    res = Inl (InvalidClientCredentials m)) \<and>
               access_token c' = access_token c \<and> expires_at c' = expires_at c))"
proof -
  obtain s c1 w1 where es: "ensure_session c w = (s, c1, w1)"
    by (cases "ensure_session c w") auto
  note keep = ensure_session_keeps [OF es]
  show ?thesis
  proof (intro conjI impI)
    assume r: "auth_reply ev (auth_calls w) = Response 200 data"
      and t: "getitem data ''access_token'' = Inr tok"
      and x: "getitem data ''expires_in'' = Inr (JInt n)"
      and g: "expiry_in_range (utcnow ev (clock_reads w)) n"
    show "case authorize ev c w of
            (res, c', w') \<Rightarrow>
              res = Inr () \<and> access_token c' = Some tok \<and>
              expires_at c' = Some (utcnow ev (clock_reads w) + n * 1000000)"
      using g keep(5)
      by (simp add: authorize_received [OF assms r es refl] t x Let_def read_clock_def
          timedelta_of_int_def datetime_add_def expiry_in_range_def)
  next
    assume r: "auth_reply ev (auth_calls w) = Response 400 data"
    show "case authorize ev c w of
            (res, c', w') \<Rightarrow>
              (\<exists>e. res = Inl e) \<and>
              (\<forall>m. HTTPException_init (py_str ev) data 400 None = Inr m \<longrightarrow>
                   res = Inl (InvalidClientCredentials m)) \<and>
              access_token c' = access_token c \<and> expires_at c' = expires_at c"
      using keep(1,2)
      by (simp add: authorize_received [OF assms r es refl] raise_http_Inr)
  qed
qed


text \<open>
  The first authorization of the client \<^verbatim>\<open>("id", "secret")\<close> at \<open>T0\<close> with a token valid for
  3600 seconds, and a 400 answered to the client that holds token \<^verbatim>\<open>T1\<close>.
\<close>

lemma authorize_200_and_400_example:
  "(case authorize (example_env [0] [Response 200 (token_body ''T1'' 3600)] []) client0 world_init of
      (res, c', w') \<Rightarrow>
        res = Inr () \<and> access_token c' = Some (JStr ''T1'') \<and>
        expires_at c' = Some (T0 + 3600 * 1000000)) \<and>
   (case authorize
           (example_env [] [Response 400 (auth_error_body ''invalid_client'' ''Invalid client'')] [])
           client1 world_init of
      (res, c', w') \<Rightarrow>
        res = Inl (InvalidClientCredentials ''400 invalid_client: True'') \<and>
        access_token c' = Some (JStr ''T1'') \<and> expires_at c' = Some (T0 + 3600 * 1000000))"
proof -
  let ?ok = "example_env [0] [Response 200 (token_body ''T1'' 3600)] []"
  let ?bad = "example_env [] [Response 400 (auth_error_body ''invalid_client'' ''Invalid client'')] []"
  have a0: "ascii_credentials client0" and u0: "session_usable client0" by code_simp+
  have a1: "ascii_credentials client1" and u1: "session_usable client1" by code_simp+
  have r: "auth_reply ?ok (auth_calls world_init) = Response 200 (token_body ''T1'' 3600)"
    by (simp add: example_env_def world_init_def)
  have t: "getitem (token_body ''T1'' 3600) ''access_token'' = Inr (JStr ''T1'')"
    by (simp add: token_body_def)
  have x: "getitem (token_body ''T1'' 3600) ''expires_in'' = Inr (JInt 3600)"
    by (simp add: token_body_def)
  have now: "utcnow ?ok (clock_reads world_init) = T0"
    by (simp add: example_env_def world_init_def)
  have g: "expiry_in_range (utcnow ?ok (clock_reads world_init)) 3600"
    unfolding now by (simp add: expiry_in_range_def T0_def DATETIME_MAX_def)
  have r': "auth_reply ?bad (auth_calls world_init) =
              Response 400 (auth_error_body ''invalid_client'' ''Invalid client'')"
    by (simp add: example_env_def world_init_def)
  have m: "HTTPException_init (py_str ?bad)
             (auth_error_body ''invalid_client'' ''Invalid client'') 400 None =
           Inr ''400 invalid_client: True''"
    by code_simp
  from authorize_200_and_400 [OF a0 u0, of ?ok world_init, THEN conjunct1, rule_format, OF r t x g]
  have first: "case authorize ?ok client0 world_init of
      (res, c', w') \<Rightarrow>
        res = Inr () \<and> access_token c' = Some (JStr ''T1'') \<and>
        expires_at c' = Some (T0 + 3600 * 1000000)"
    by (simp add: now)
  from authorize_200_and_400 [OF a1 u1, of ?bad world_init, THEN conjunct2, rule_format, OF r'] m
  have second: "case authorize ?bad client1 world_init of
      (res, c', w') \<Rightarrow>
        res = Inl (InvalidClientCredentials ''400 invalid_client: True'') \<and>
        access_token c' = Some (JStr ''T1'') \<and> expires_at c' = Some (T0 + 3600 * 1000000)"
    by (auto simp: client1_def)
  from first second show ?thesis by (rule conjI)
qed

text \<open>
  Claim C4 says that an \<^verbatim>\<open>authorize()\<close> call that receives a 400 raises
  \<^verbatim>\<open>InvalidClientCredentials\<close> and leaves the token state unchanged. The token endpoint
  answers 400 with the body \<^verbatim>\<open>{"error": "invalid_client"}\<close>, an OAuth error without the
  optional description, to the client that holds token \<^verbatim>\<open>T1\<close>. The statement
  \<^verbatim>\<open>raise InvalidClientCredentials(data, response.status)\<close> is reached, but the constructor
  takes the branch for a missing description and indexes the string \<^verbatim>\<open>data["error"]\<close> with
  \<^verbatim>\<open>"message"\<close>: what propagates is \<^verbatim>\<open>TypeError\<close>. The client is left as it was.
\<close>

theorem authorize_400_without_description:
  "case authorize (example_env [] [Response 400 (JObj [(''error'', JStr ''invalid_client'')])] [])
          client1 world_init of
     (res, c', w') \<Rightarrow> res = Inl TypeError \<and> c' = client1 \<and> auth_calls w' = 1"
  by code_simp

section \<open>\<^verbatim>\<open>request\<close>: the staleness test\<close>

text \<open>
  The test of \<^verbatim>\<open>request\<close> subtracts the expiry from the clock and reads \<^verbatim>\<open>.seconds\<close>. For a
  token that is still valid the difference is negative, and Python normalises it to
  \<open>-1\<close> day plus a number of seconds close to 86400: a token with up to 86389 seconds
  left is never refreshed, however close its expiry.
\<close>

lemma stale_test_misses_expiring_token:
  assumes "0 < ex - now" and "ex - now \<le> 86389 * 1000000"
  shows "\<not> timedelta_seconds (now - ex) \<le> 10"
proof -
  define q where "q = (now - ex) div 1000000"
  have "(- 86389 * 1000000) div 1000000 \<le> (now - ex) div (1000000::int)"
    using assms(2) by (intro zdiv_mono1) simp_all
  then have lo: "- 86389 \<le> q" by (simp add: q_def)
  have hi: "q < 0"
    unfolding q_def using assms(1) by (intro div_neg_pos_less0) simp_all
  have "q mod 86400 = (q + 86400) mod 86400" by simp
  also have "\<dots> = q + 86400"
    using lo hi by (intro mod_pos_pos_trivial) simp_all
  finally show ?thesis
    using lo by (simp add: timedelta_seconds_def q_def)
qed

lemma refresh_if_stale_skips_expiring_token:
  assumes "expires_at c = Some ex" and "0 < ex - utcnow ev (clock_reads w)"
    and "ex - utcnow ev (clock_reads w) \<le> 86389 * 1000000"
  shows "refresh_if_stale ev c w = (Inr (), c, w\<lparr>clock_reads := Suc (clock_reads w)\<rparr>)"
  using stale_test_misses_expiring_token [OF assms(2,3)] assms(1)
  by (simp add: refresh_if_stale_def read_clock_def)

text \<open>
  Claim C2 says that a token with at most 10 seconds left makes \<^verbatim>\<open>request()\<close> call
  \<^verbatim>\<open>authorize()\<close> once before it dispatches. The client was authorized at \<open>T0\<close> with token
  \<^verbatim>\<open>T1\<close> for 3600 seconds and calls \<^verbatim>\<open>get_track("X")\<close> at \<open>T0 + 3595\<close> seconds, 5 seconds
  before the expiry: no call reaches the token endpoint, and the one call on the wire
  carries the old token.
\<close>

theorem request_five_seconds_before_expiry:
  "case request (example_env [3595] [Response 200 (token_body ''T2'' 3600)] [Response 200 track_body])
          track_route client1 world_init of
     (res, c', w') \<Rightarrow>
       res = Some (Inr track_body) \<and> auth_calls w' = 0 \<and> access_token c' = Some (JStr ''T1'') \<and>
       wire w' = [Request ''GET'' ''https://api.spotify.com/v1/tracks/X''
                    [(''Authorization'', ''Bearer T1'')] None]"
  by code_simp

section \<open>\<^verbatim>\<open>request\<close>: the authorization check\<close>

text \<open>
  Claim C3 says that \<^verbatim>\<open>request()\<close> fails with \<^verbatim>\<open>NotAuthorized\<close> if and only if \<^verbatim>\<open>authorize()\<close>
  has never run successfully, also after \<^verbatim>\<open>authorize()\<close> calls that all failed. The check
  of \<^verbatim>\<open>request\<close> is \<^verbatim>\<open>hasattr(self, "_session")\<close>, and \<^verbatim>\<open>authorize\<close> creates the session before
  it sends anything. A first \<^verbatim>\<open>authorize()\<close> that gets a 400 raises
  \<^verbatim>\<open>InvalidClientCredentials\<close>; the \<^verbatim>\<open>request()\<close> after it passes the check and raises
  \<^verbatim>\<open>AttributeError\<close> on \<^verbatim>\<open>self._expires_at\<close>, with nothing sent.
\<close>

theorem request_after_failed_authorize:
  "case authorize
          (example_env [] [Response 400 (auth_error_body ''invalid_client'' ''Invalid client'')] [])
          client0 world_init of
     (ra, c1, w1) \<Rightarrow>
       ra = Inl (InvalidClientCredentials ''400 invalid_client: True'') \<and>
       request (example_env [] [Response 400 (auth_error_body ''invalid_client'' ''Invalid client'')] [])
         track_route c1 w1 =
       (Some (Inl (AttributeError ''_expires_at'')), c1, w1\<lparr>clock_reads := 1\<rparr>)"
  by code_simp

text \<open>
  Claim C3 as amended: \<^verbatim>\<open>request()\<close> fails with \<^verbatim>\<open>NotAuthorized\<close> if and only if the client
  has no session; it then leaves the client and the world as they were (nothing is
  sent); and every \<^verbatim>\<open>authorize()\<close> call, whatever its outcome, leaves the client with a
  session. So \<^verbatim>\<open>NotAuthorized\<close> is raised exactly as long as \<^verbatim>\<open>authorize()\<close> has never been
  called.
\<close>

theorem request_NotAuthorized_iff:
  "((\<exists>m. fst (request ev r c w) = Some (Inl (NotAuthorized m))) \<longleftrightarrow> session c = None) \<and>
   (session c = None \<longrightarrow> snd (request ev r c w) = (c, w)) \<and>
   session (fst (snd (authorize ev' c w''))) \<noteq> None"
proof (intro conjI impI)
  show "(\<exists>m. fst (request ev r c w) = Some (Inl (NotAuthorized m))) \<longleftrightarrow> session c = None"
  proof (cases "session c")
    case None
    then show ?thesis by (simp add: request_unauthorized)
  next
    case (Some s)
    obtain res c' w' where rq: "request ev r c w = (res, c', w')"
      by (cases "request ev r c w") auto
    from request_not_NotAuthorized [OF Some rq] Some rq show ?thesis by simp
  qed
next
  assume "session c = None"
  then show "snd (request ev r c w) = (c, w)" by (simp add: request_unauthorized)
next
  obtain ra c1 w1 where au: "authorize ev' c w'' = (ra, c1, w1)"
    by (cases "authorize ev' c w''") auto
  show "session (fst (snd (authorize ev' c w''))) \<noteq> None"
    using authorize_session_Some [OF _ au] authorize_session_None [OF _ au] au
    by (cases "session c") auto
qed

text \<open>The client that was only constructed.\<close>

theorem request_NotAuthorized_iff_witness:
  "fst (request (example_env [] [] []) track_route client0 world_init) =
     Some (Inl (NotAuthorized ''You need to authorize first before making any requests'')) \<and>
   snd (request (example_env [] [] []) track_route client0 world_init) = (client0, world_init) \<and>
   session (fst (snd (authorize (example_env [] [] []) client0 world_init))) \<noteq> None"
proof -
  have n: "session client0 = None" by (simp add: client0_def HTTPClient_init_def)
  note t = request_NotAuthorized_iff [of "example_env [] [] []" track_route client0 world_init
      "example_env [] [] []" world_init]
  from t n have "\<exists>m. fst (request (example_env [] [] []) track_route client0 world_init) =
      Some (Inl (NotAuthorized m))" by simp
  then have "fst (request (example_env [] [] []) track_route client0 world_init) =
      Some (Inl (NotAuthorized ''You need to authorize first before making any requests''))"
    by (auto simp: request_unauthorized [OF n])
  with t n show ?thesis by simp
qed

section \<open>\<^verbatim>\<open>request\<close>: a 401 from the API\<close>

text \<open>
  Whatever the token endpoint and the API answer afterwards, a \<^verbatim>\<open>request\<close> whose data call
  is answered with 401 sends no second data call and never returns a body.
\<close>

lemma request_401_never_retried:
  assumes "request ev r c w = (res, c', w')"
    and "data_calls w' \<noteq> data_calls w"
    and "data_reply ev (data_calls w) = Response 401 data"
  shows "data_calls w' = Suc (data_calls w)" and "res \<noteq> Some (Inr d)"
  using request_dispatched [OF assms] by simp_all

text \<open>
  Claim C1 says that one 401 leads to one re-authorization and one retried request with
  the new token, and that the retrying terminates. The client holds token \<^verbatim>\<open>T1\<close>; the
  API answers 401 to the first call and would answer 200 to a second one; the token
  endpoint issues \<^verbatim>\<open>T2\<close>. The re-authorization happens and stores \<^verbatim>\<open>T2\<close>, but the recursive
  \<^verbatim>\<open>request\<close> is awaited inside \<^verbatim>\<open>async with self.lock\<close> and waits for the lock its caller
  holds: the call never returns, the lock stays held, and the wire has seen the first
  data call and the token call only.
\<close>

theorem request_single_401_never_returns:
  "case request
          (example_env [10, 10, 10] [Response 200 (token_body ''T2'' 3600)]
             [Response 401 (error_object 401 ''The access token expired''),
              Response 200 track_body])
          track_route client1 world_init of
     (res, c', w') \<Rightarrow>
       res = None \<and> lock_held c' \<and> access_token c' = Some (JStr ''T2'') \<and>
       auth_calls w' = 1 \<and> data_calls w' = 1 \<and>
       wire w' =
         [Request ''GET'' ''https://api.spotify.com/v1/tracks/X''
            [(''Authorization'', ''Bearer T1'')] None,
          Post ''https://accounts.spotify.com/api/token/''
            [(''Authorization'', ''Basic aWQ6c2VjcmV0'')]
            [(''grant_type'', ''client_credentials'')]]"
  by code_simp

section \<open>\<^verbatim>\<open>request\<close>: the interpretation of the status\<close>

text \<open>
  Claim C7 says that every non-2xx status other than 403, 404, 500, 502 and 503 fails
  with the generic \<^verbatim>\<open>HTTPException\<close>, and that 403 fails with \<^verbatim>\<open>Forbidden\<close>. A 401 is such a
  status, and \<^verbatim>\<open>request\<close> tests for it before all others: it re-authorizes and calls
  itself, and here the call never returns. And a 403 whose body has no \<^verbatim>\<open>error\<close> field
  fails with the \<^verbatim>\<open>KeyError\<close> of the constructor of \<^verbatim>\<open>Forbidden\<close>.
\<close>

theorem request_status_counterexample:
  "fst (request
          (example_env [10, 10, 10] [Response 200 (token_body ''T2'' 3600)]
             [Response 401 (error_object 401 ''Invalid access token'')])
          track_route client1 world_init) = None \<and>
   fst (request (status_env 403 (JObj [])) track_route client1 world_init) =
     Some (Inl (KeyError ''error''))"
  by code_simp

text \<open>
  Claim C7 as amended: for a data request that was sent and answered with a status other
  than 401, a status in 200-299 returns the parsed body; and for a body from which the
  constructor formats the message \<open>m\<close>, 403 fails with \<^verbatim>\<open>Forbidden\<close>, 404 with \<^verbatim>\<open>NotFound\<close>,
  500, 502 and 503 with \<^verbatim>\<open>ServerError\<close>, and 429 and every other status with the generic
  \<^verbatim>\<open>HTTPException\<close>, each carrying \<open>m\<close>.
\<close>

theorem request_status_interpretation:
  assumes "request ev r c w = (res, c', w')"
    and "data_calls w' \<noteq> data_calls w"
    and "data_reply ev (data_calls w) = Response status data"
    and "status \<noteq> 401"
  shows "(200 \<le> status \<and> status < 300 \<longrightarrow> res = Some (Inr data)) \<and>
         (\<forall>m. HTTPException_init (py_str ev) data status None = Inr m \<longrightarrow>
            (status = 403 \<longrightarrow> res = Some (Inl (Forbidden m))) \<and>
            (status = 404 \<longrightarrow> res = Some (Inl (NotFound m))) \<and>
            (status \<in> {500, 502, 503} \<longrightarrow> res = Some (Inl (ServerError m))) \<and>
            (status = 429 \<longrightarrow> res = Some (Inl (HTTPException m))) \<and>
            (\<not> (200 \<le> status \<and> status < 300) \<and> status \<notin> {403, 404, 500, 502, 503} \<longrightarrow>
               res = Some (Inl (HTTPException m))))"
proof -
  from request_dispatched [OF assms(1-3)] assms(4)
  have res: "res = (if 200 \<le> status \<and> status < 300 then Some (Inr data)
                    else Some (Inl (raise_for_status (py_str ev) status data)))"
    by simp
  show ?thesis
    unfolding res by (auto simp: raise_for_status_def Let_def raise_http_Inr)
qed

text \<open>
  The client that holds token \<^verbatim>\<open>T1\<close> calls \<^verbatim>\<open>get_track("X")\<close>; the API answers with each
  boundary status in turn, the errors with the API's error object.
\<close>

theorem request_status_interpretation_witness:
  "fst (request (status_env 200 (track_body)) track_route client1 world_init) = Some (Inr track_body) \<and>
   fst (request (status_env 299 (track_body)) track_route client1 world_init) = Some (Inr track_body) \<and>
   fst (request (status_env 300 (error_object 300 ''Multiple Choices'')) track_route client1 world_init) =
     Some (Inl (HTTPException ''300 {'status': 300, 'message': 'Multiple Choices'}: Multiple Choices'')) \<and>
   fst (request (status_env 304 (error_object 304 ''Not Modified'')) track_route client1 world_init) =
     Some (Inl (HTTPException ''304 {'status': 304, 'message': 'Not Modified'}: Not Modified'')) \<and>
   fst (request (status_env 400 (error_object 400 ''Bad Request'')) track_route client1 world_init) =
     Some (Inl (HTTPException ''400 {'status': 400, 'message': 'Bad Request'}: Bad Request'')) \<and>
   fst (request (status_env 403 (error_object 403 ''Forbidden'')) track_route client1 world_init) =
     Some (Inl (Forbidden ''403 {'status': 403, 'message': 'Forbidden'}: Forbidden'')) \<and>
   fst (request (status_env 404 (error_object 404 ''Not Found'')) track_route client1 world_init) =
     Some (Inl (NotFound ''404 {'status': 404, 'message': 'Not Found'}: Not Found'')) \<and>
   fst (request (status_env 429 (error_object 429 ''Too Many Requests'')) track_route client1 world_init) =
     Some (Inl (HTTPException ''429 {'status': 429, 'message': 'Too Many Requests'}: Too Many Requests'')) \<and>
   fst (request (status_env 500 (error_object 500 ''Internal Server Error'')) track_route client1 world_init) =
     Some (Inl (ServerError ''500 {'status': 500, 'message': 'Internal Server Error'}: Internal Server Error'')) \<and>
   fst (request (status_env 502 (error_object 502 ''Bad Gateway'')) track_route client1 world_init) =
     Some (Inl (ServerError ''502 {'status': 502, 'message': 'Bad Gateway'}: Bad Gateway'')) \<and>
   fst (request (status_env 503 (error_object 503 ''Service Unavailable'')) track_route client1 world_init) =
     Some (Inl (ServerError ''503 {'status': 503, 'message': 'Service Unavailable'}: Service Unavailable''))"
proof -
  have surj: "request ev track_route client1 world_init =
      (fst (request ev track_route client1 world_init),
       fst (snd (request ev track_route client1 world_init)),
       snd (snd (request ev track_route client1 world_init)))" for ev
    by simp
  have r: "data_reply (status_env st body) (data_calls world_init) = Response st body" for st body
    by (simp add: status_env_def example_env_def world_init_def)
  have c200: "fst (request (status_env 200 (track_body)) track_route client1 world_init) = Some (Inr track_body)"
  proof -
    have d: "data_calls (snd (snd (request (status_env 200 (track_body)) track_route client1 world_init))) \<noteq>
        data_calls world_init"
      by code_simp
    from request_status_interpretation [OF surj d r] show ?thesis by simp
  qed
  have c299: "fst (request (status_env 299 (track_body)) track_route client1 world_init) = Some (Inr track_body)"
  proof -
    have d: "data_calls (snd (snd (request (status_env 299 (track_body)) track_route client1 world_init))) \<noteq>
        data_calls world_init"
      by code_simp
    from request_status_interpretation [OF surj d r] show ?thesis by simp
  qed
  have c300: "fst (request (status_env 300 (error_object 300 ''Multiple Choices'')) track_route client1 world_init) =
     Some (Inl (HTTPException ''300 {'status': 300, 'message': 'Multiple Choices'}: Multiple Choices''))"
  proof -
    have d: "data_calls (snd (snd (request (status_env 300 (error_object 300 ''Multiple Choices'')) track_route client1 world_init))) \<noteq>
        data_calls world_init"
      by code_simp
    have m: "HTTPException_init (py_str (status_env 300 (error_object 300 ''Multiple Choices''))) (error_object 300 ''Multiple Choices'') 300 None =
        Inr ''300 {'status': 300, 'message': 'Multiple Choices'}: Multiple Choices''"
      by code_simp
    from request_status_interpretation [OF surj d r] m show ?thesis by simp
  qed
  have c304: "fst (request (status_env 304 (error_object 304 ''Not Modified'')) track_route client1 world_init) =
     Some (Inl (HTTPException ''304 {'status': 304, 'message': 'Not Modified'}: Not Modified''))"
  proof -
    have d: "data_calls (snd (snd (request (status_env 304 (error_object 304 ''Not Modified'')) track_route client1 world_init))) \<noteq>
        data_calls world_init"
      by code_simp
    have m: "HTTPException_init (py_str (status_env 304 (error_object 304 ''Not Modified''))) (error_object 304 ''Not Modified'') 304 None =
        Inr ''304 {'status': 304, 'message': 'Not Modified'}: Not Modified''"
      by code_simp
    from request_status_interpretation [OF surj d r] m show ?thesis by simp
  qed
  have c400: "fst (request (status_env 400 (error_object 400 ''Bad Request'')) track_route client1 world_init) =
     Some (Inl (HTTPException ''400 {'status': 400, 'message': 'Bad Request'}: Bad Request''))"
  proof -
    have d: "data_calls (snd (snd (request (status_env 400 (error_object 400 ''Bad Request'')) track_route client1 world_init))) \<noteq>
        data_calls world_init"
      by code_simp
    have m: "HTTPException_init (py_str (status_env 400 (error_object 400 ''Bad Request''))) (error_object 400 ''Bad Request'') 400 None =
        Inr ''400 {'status': 400, 'message': 'Bad Request'}: Bad Request''"
      by code_simp
    from request_status_interpretation [OF surj d r] m show ?thesis by simp
  qed
  have c403: "fst (request (status_env 403 (error_object 403 ''Forbidden'')) track_route client1 world_init) =
     Some (Inl (Forbidden ''403 {'status': 403, 'message': 'Forbidden'}: Forbidden''))"
  proof -
    have d: "data_calls (snd (snd (request (status_env 403 (error_object 403 ''Forbidden'')) track_route client1 world_init))) \<noteq>
        data_calls world_init"
      by code_simp
    have m: "HTTPException_init (py_str (status_env 403 (error_object 403 ''Forbidden''))) (error_object 403 ''Forbidden'') 403 None =
        Inr ''403 {'status': 403, 'message': 'Forbidden'}: Forbidden''"
      by code_simp
    from request_status_interpretation [OF surj d r] m show ?thesis by simp
  qed
  have c404: "fst (request (status_env 404 (error_object 404 ''Not Found'')) track_route client1 world_init) =
     Some (Inl (NotFound ''404 {'status': 404, 'message': 'Not Found'}: Not Found''))"
  proof -
    have d: "data_calls (snd (snd (request (status_env 404 (error_object 404 ''Not Found'')) track_route client1 world_init))) \<noteq>
        data_calls world_init"
      by code_simp
    have m: "HTTPException_init (py_str (status_env 404 (error_object 404 ''Not Found''))) (error_object 404 ''Not Found'') 404 None =
        Inr ''404 {'status': 404, 'message': 'Not Found'}: Not Found''"
      by code_simp
    from request_status_interpretation [OF surj d r] m show ?thesis by simp
  qed
  have c429: "fst (request (status_env 429 (error_object 429 ''Too Many Requests'')) track_route client1 world_init) =
     Some (Inl (HTTPException ''429 {'status': 429, 'message': 'Too Many Requests'}: Too Many Requests''))"
  proof -
    have d: "data_calls (snd (snd (request (status_env 429 (error_object 429 ''Too Many Requests'')) track_route client1 world_init))) \<noteq>
        data_calls world_init"
      by code_simp
    have m: "HTTPException_init (py_str (status_env 429 (error_object 429 ''Too Many Requests''))) (error_object 429 ''Too Many Requests'') 429 None =
        Inr ''429 {'status': 429, 'message': 'Too Many Requests'}: Too Many Requests''"
      by code_simp
    from request_status_interpretation [OF surj d r] m show ?thesis by simp
  qed
  have c500: "fst (request (status_env 500 (error_object 500 ''Internal Server Error'')) track_route client1 world_init) =
     Some (Inl (ServerError ''500 {'status': 500, 'message': 'Internal Server Error'}: Internal Server Error''))"
  proof -
    have d: "data_calls (snd (snd (request (status_env 500 (error_object 500 ''Internal Server Error'')) track_route client1 world_init))) \<noteq>
        data_calls world_init"
      by code_simp
    have m: "HTTPException_init (py_str (status_env 500 (error_object 500 ''Internal Server Error''))) (error_object 500 ''Internal Server Error'') 500 None =
        Inr ''500 {'status': 500, 'message': 'Internal Server Error'}: Internal Server Error''"
      by code_simp
    from request_status_interpretation [OF surj d r] m show ?thesis by simp
  qed
  have c502: "fst (request (status_env 502 (error_object 502 ''Bad Gateway'')) track_route client1 world_init) =
     Some (Inl (ServerError ''502 {'status': 502, 'message': 'Bad Gateway'}: Bad Gateway''))"
  proof -
    have d: "data_calls (snd (snd (request (status_env 502 (error_object 502 ''Bad Gateway'')) track_route client1 world_init))) \<noteq>
        data_calls world_init"
      by code_simp
    have m: "HTTPException_init (py_str (status_env 502 (error_object 502 ''Bad Gateway''))) (error_object 502 ''Bad Gateway'') 502 None =
        Inr ''502 {'status': 502, 'message': 'Bad Gateway'}: Bad Gateway''"
      by code_simp
    from request_status_interpretation [OF surj d r] m show ?thesis by simp
  qed
  have c503: "fst (request (status_env 503 (error_object 503 ''Service Unavailable'')) track_route client1 world_init) =
     Some (Inl (ServerError ''503 {'status': 503, 'message': 'Service Unavailable'}: Service Unavailable''))"
  proof -
    have d: "data_calls (snd (snd (request (status_env 503 (error_object 503 ''Service Unavailable'')) track_route client1 world_init))) \<noteq>
        data_calls world_init"
      by code_simp
    have m: "HTTPException_init (py_str (status_env 503 (error_object 503 ''Service Unavailable''))) (error_object 503 ''Service Unavailable'') 503 None =
        Inr ''503 {'status': 503, 'message': 'Service Unavailable'}: Service Unavailable''"
      by code_simp
    from request_status_interpretation [OF surj d r] m show ?thesis by simp
  qed
  from c200 c299 c300 c304 c400 c403 c404 c429 c500 c502 c503 show ?thesis by (intro conjI)
qed

section \<open>The messages of \<^verbatim>\<open>errors.py\<close>\<close>

text \<open>
  What the constructor of \<^verbatim>\<open>HTTPException\<close> and its subclasses computes for the two shapes
  of error body. For the API's error object (an \<^verbatim>\<open>error\<close> field holding an object with a
  \<^verbatim>\<open>message\<close>, and no \<^verbatim>\<open>error_description\<close>) the message is the status, the \<^verbatim>\<open>error\<close> field, a
  colon and \<^verbatim>\<open>error.message\<close>, followed by the extra message in parentheses when there is
  one.
\<close>

lemma HTTPException_init_error_object:
  assumes "getitem data ''error'' = Inr err"
    and "get_method data ''error_description'' = Inr JNull"
    and "getitem err ''message'' = Inr m"
  shows "HTTPException_init str data st extra =
           Inr (str (JInt st) @ '' '' @ str err @ '': '' @ str m @
                (case extra of None \<Rightarrow> [] | Some x \<Rightarrow> '' ('' @ x @ '')''))"
  using assms by (simp add: HTTPException_init_def split: option.splits)

text \<open>
  For a body with an \<^verbatim>\<open>error_description\<close> that is not null, whatever the description is,
  what follows the colon is the value of the walrus expression, the boolean \<^verbatim>\<open>True\<close>.
\<close>

lemma HTTPException_init_description_dropped:
  assumes "getitem data ''error'' = Inr err" and "get_method data ''error_description'' = Inr d"
    and "d \<noteq> JNull"
  shows "HTTPException_init str data st extra =
           Inr (str (JInt st) @ '' '' @ str err @ '': '' @ str (JBool True) @
                (case extra of None \<Rightarrow> [] | Some x \<Rightarrow> '' ('' @ x @ '')''))"
  using assms by (simp add: HTTPException_init_def split: option.splits)

text \<open>
  Claim C8 says that every failure kind formats, for every response body, a message that
  combines the body's \<^verbatim>\<open>error\<close> field (or \<^verbatim>\<open>error.message\<close>) with the \<^verbatim>\<open>error_description\<close> when
  it is present. The token endpoint's error body
  \<^verbatim>\<open>{"error": "invalid_client", "error_description": "Invalid client"}\<close> with status 400
  gives the message \<^verbatim>\<open>400 invalid_client: True\<close>: in
  \<^verbatim>\<open>desc := data.get("error_description") is not None\<close> the walrus binds the comparison, and
  the description is in no part of the message. The same body without the description
  makes the constructor raise \<^verbatim>\<open>TypeError\<close>, and a body without \<^verbatim>\<open>error\<close> makes it raise
  \<^verbatim>\<open>KeyError\<close>: no message is formatted.
\<close>

theorem HTTPException_init_drops_description:
  "HTTPException_init str_example (auth_error_body ''invalid_client'' ''Invalid client'') 400 None =
     Inr ''400 invalid_client: True'' \<and>
   raise_http str_example InvalidClientCredentials
     (auth_error_body ''invalid_client'' ''Invalid client'') 400 =
     InvalidClientCredentials ''400 invalid_client: True'' \<and>
   HTTPException_init str_example (JObj [(''error'', JStr ''invalid_client'')]) 400 None =
     Inl TypeError \<and>
   HTTPException_init str_example (JObj []) 404 None = Inl (KeyError ''error'')"
  by code_simp

text \<open>
  The API's error object, with an extra message: here the constructor formats what the
  claim describes.
\<close>

lemma HTTPException_init_error_object_example:
  "HTTPException_init str_example (error_object 404 ''Not Found'') 404 (Some ''retry'') =
     Inr ''404 {'status': 404, 'message': 'Not Found'}: Not Found (retry)''"
  by code_simp

section \<open>The life of the session\<close>

text \<open>
  Claim C10: the first \<^verbatim>\<open>authorize()\<close> creates the session before it sends anything, so
  the client has a new open session whatever the outcome of the call; a later
  \<^verbatim>\<open>authorize()\<close> keeps the session it finds and creates none; \<^verbatim>\<open>request()\<close> leaves the
  session as it is; and \<^verbatim>\<open>destroy()\<close> is the operation that ends it: the session it
  leaves behind is closed.
\<close>

theorem session_lifecycle:
  "(session c = None \<longrightarrow>
      (case authorize ev c w of
         (res, c', w') \<Rightarrow> session c' = Some \<lparr>sid = sessions_created w, is_closed = False\<rparr>)) \<and>
   (session c = Some s \<longrightarrow>
      (case authorize ev c w of
         (res, c', w') \<Rightarrow> session c' = Some s \<and> sessions_created w' = sessions_created w)) \<and>
   (case request ev r c w of (res, c', w') \<Rightarrow> session c' = session c) \<and>
   (session c = Some s \<longrightarrow>
      (case destroy c w of
         (res, c', w') \<Rightarrow> res = Inr () \<and> session c' = Some (s\<lparr>is_closed := True\<rparr>)))"
proof -
  obtain ra ca wa where au: "authorize ev c w = (ra, ca, wa)"
    by (cases "authorize ev c w") auto
  obtain rq cq wq where rq: "request ev r c w = (rq, cq, wq)"
    by (cases "request ev r c w") auto
  obtain rd cd wd where de: "destroy c w = (rd, cd, wd)"
    by (cases "destroy c w") auto
  show ?thesis
    using authorize_session_None [OF _ au] authorize_session_Some [OF _ au]
      request_session [OF rq] destroy_with_session(1,2) [OF _ de]
    by (simp add: au rq de)
qed

text \<open>
  A first \<^verbatim>\<open>authorize()\<close> that gets a 400, the same answer to the client that already has
  session 0, a \<^verbatim>\<open>request()\<close> of that client, and its \<^verbatim>\<open>destroy()\<close>.
\<close>

theorem session_lifecycle_witness:
  "(case authorize
           (example_env [] [Response 400 (auth_error_body ''invalid_client'' ''Invalid client'')] [])
           client0 world_init of
      (res, c', w') \<Rightarrow> session c' = Some \<lparr>sid = 0, is_closed = False\<rparr>) \<and>
   (case authorize
           (example_env [] [Response 400 (auth_error_body ''invalid_client'' ''Invalid client'')] [])
           client1 world_init of
      (res, c', w') \<Rightarrow>
        session c' = Some \<lparr>sid = 0, is_closed = False\<rparr> \<and> sessions_created w' = 0) \<and>
   (case request (status_env 200 track_body) track_route client1 world_init of
      (res, c', w') \<Rightarrow> session c' = Some \<lparr>sid = 0, is_closed = False\<rparr>) \<and>
   (case destroy client1 world_init of
      (res, c', w') \<Rightarrow> res = Inr () \<and> session c' = Some \<lparr>sid = 0, is_closed = True\<rparr>)"
proof -
  let ?bad = "example_env [] [Response 400 (auth_error_body ''invalid_client'' ''Invalid client'')] []"
  let ?s = "\<lparr>sid = 0, is_closed = False\<rparr>"
  have n: "session client0 = None" by code_simp
  have s: "session client1 = Some ?s" by code_simp
  have z: "sessions_created world_init = 0" by code_simp
  from session_lifecycle [where c = client0 and ev = ?bad and w = world_init,
      THEN conjunct1, rule_format, OF n] z
  have c1: "case authorize ?bad client0 world_init of
      (res, c', w') \<Rightarrow> session c' = Some \<lparr>sid = 0, is_closed = False\<rparr>"
    by simp
  note t = session_lifecycle [where c = client1 and s = ?s and w = world_init and r = track_route]
  from t [where ev = ?bad, THEN conjunct2, THEN conjunct1, rule_format, OF s] z
  have c2: "case authorize ?bad client1 world_init of
      (res, c', w') \<Rightarrow>
        session c' = Some \<lparr>sid = 0, is_closed = False\<rparr> \<and> sessions_created w' = 0"
    by simp
  from t [where ev = "status_env 200 track_body", THEN conjunct2, THEN conjunct2,
      THEN conjunct1] s
  have c3: "case request (status_env 200 track_body) track_route client1 world_init of
      (res, c', w') \<Rightarrow> session c' = Some \<lparr>sid = 0, is_closed = False\<rparr>"
    by simp
  from t [where ev = ?bad, THEN conjunct2, THEN conjunct2, THEN conjunct2, rule_format, OF s]
  have c4: "case destroy client1 world_init of
      (res, c', w') \<Rightarrow> res = Inr () \<and> session c' = Some \<lparr>sid = 0, is_closed = True\<rparr>"
    by simp
  from c1 c2 c3 c4 show ?thesis by (intro conjI)
qed

section \<open>The lock around the data request\<close>

text \<open>
  In a single call: a data request is only sent by a call that found the lock free and
  took it, and a call that returns or raises has given the lock back.
\<close>

lemma request_releases_lock:
  assumes "request ev r c w = (Some x, c', w')" and "\<not> lock_held c"
  shows "\<not> lock_held c'"
proof (cases "session c")
  case None
  with assms show ?thesis by (simp add: request_unauthorized)
next
  case (Some s)
  obtain rr c2 w2 where rf: "refresh_if_stale ev c w = (rr, c2, w2)"
    by (cases "refresh_if_stale ev c w") auto
  from refresh_if_stale_lock_held [OF rf] assms(2) have l2: "\<not> lock_held c2" by simp
  from assms(1) l2 show ?thesis
    by (subst (asm) request.simps)
      (auto simp: Some rf Let_def
        split: sum.splits option.splits prod.splits if_splits)
qed

lemma request_sends_under_lock:
  assumes "request ev r c w = (res, c', w')" and "data_calls w' \<noteq> data_calls w"
  shows "\<not> lock_held c"
proof (cases "session c")
  case None
  with assms show ?thesis by (simp add: request_unauthorized)
next
  case (Some s)
  show ?thesis
  proof
    assume "lock_held c"
    from request_lock_held_facts(2) [OF Some this assms(1)] assms(2) show False by simp
  qed
qed

text \<open>Each step of each call keeps the invariant of the lock.\<close>

lemma on_wire_in_block: "on_wire p \<Longrightarrow> in_block p"
  by (cases p) auto

lemma advance_in_block:
  assumes "calm p" and "in_block p \<longrightarrow> l" and "advance t l p = (l', p')"
  shows "calm p' \<and>
         (if in_block p then l' = in_block p'
          else if in_block p' then \<not> l \<and> l' else l' = l)"
proof (cases p)
  case (Retrying q)
  with assms show ?thesis
    by (cases q; cases t) (auto split: if_splits)
qed (use assms in \<open>cases t; auto split: if_splits\<close>)+

lemma filter_update_length:
  "i < length xs \<Longrightarrow>
     length (filter P (xs[i := y])) + (if P (xs ! i) then 1 else 0) =
     length (filter P xs) + (if P y then 1 else 0)"
proof (induction xs arbitrary: i)
  case Nil
  then show ?case by simp
next
  case (Cons x xs)
  then show ?case by (cases i) auto
qed

lemma filter_length_nth:
  "i < length xs \<Longrightarrow> P (xs ! i) \<Longrightarrow> 1 \<le> length (filter P xs)"
  by (induction xs arbitrary: i) (auto simp: nth_Cons split: nat.splits)

lemma lock_discipline_fire:
  assumes "lock_discipline s"
  shows "lock_discipline (fire x s)"
proof -
  obtain i t where x: "x = (i, t)" by (cases x)
  obtain l ps where s: "s = (l, ps)" by (cases s)
  show ?thesis
  proof (cases "i < length ps")
    case False
    with assms show ?thesis by (simp add: x s)
  next
    case True
    obtain l' p' where a: "advance t l (ps ! i) = (l', p')"
      by (cases "advance t l (ps ! i)")
    from assms have cnt: "length (filter in_block ps) = (if l then 1 else 0)"
      and calm: "list_all calm ps"
      by (simp_all add: lock_discipline_def s)
    from calm True have c: "calm (ps ! i)" by (simp add: list_all_length)
    have h: "in_block (ps ! i) \<longrightarrow> l"
      using filter_length_nth [OF True, of in_block] cnt by (auto split: if_splits)
    from advance_in_block [OF c h a]
    have c': "calm p'"
      and st: "if in_block (ps ! i) then l' = in_block p'
               else if in_block p' then \<not> l \<and> l' else l' = l"
      by simp_all
    have "list_all calm (ps[i := p'])"
      using calm c' set_update_subset_insert [of ps i p'] by (auto simp: list_all_iff)
    moreover have "length (filter in_block (ps[i := p'])) = (if l' then 1 else 0)"
      using filter_update_length [OF True, of in_block p'] cnt st h
      by (auto split: if_splits)
    ultimately show ?thesis
      using True by (simp add: x s a lock_discipline_def)
  qed
qed

lemma lock_discipline_run: "lock_discipline s \<Longrightarrow> lock_discipline (run sched s)"
  by (induction sched arbitrary: s) (simp_all add: lock_discipline_fire)

lemma lock_discipline_initial: "lock_discipline (False, replicate n Start)"
  by (induction n) (simp_all add: lock_discipline_def)

lemma filter_mono_length:
  "(\<And>x. P x \<Longrightarrow> Q x) \<Longrightarrow> length (filter P xs) \<le> length (filter Q xs)"
  by (induction xs) auto

text \<open>
  Claim C6: however many calls of \<^verbatim>\<open>request\<close> are in progress and however the event loop
  interleaves their steps, at most one of them has a data request on the wire, and the
  lock is held exactly while some call is inside the block: it is taken on entry and
  given back on every way out.
\<close>

theorem one_data_request_on_the_wire:
  "case run sched (False, replicate n Start) of
     (l, ps) \<Rightarrow> length (filter on_wire ps) \<le> 1 \<and> l = (filter in_block ps \<noteq> [])"
proof -
  obtain l ps where r: "run sched (False, replicate n Start) = (l, ps)"
    by (cases "run sched (False, replicate n Start)")
  from lock_discipline_run [OF lock_discipline_initial, of sched n] r
  have cnt: "length (filter in_block ps) = (if l then 1 else 0)"
    by (simp add: lock_discipline_def)
  have "length (filter on_wire ps) \<le> length (filter in_block ps)"
    by (rule filter_mono_length) (rule on_wire_in_block)
  with cnt show ?thesis
    by (auto simp: r split: if_splits)
qed

text \<open>
  Two calls: the second waits at the lock while the first is in flight. The first gets
  a 401, re-authorizes and calls itself; its recursive call now waits for the lock the
  first call holds, and so does the second call, for good.
\<close>

lemma two_calls_and_a_401:
  "run [(0, Continues), (1, Continues), (0, Continues), (1, Continues)]
     (False, replicate 2 Start) = (True, [In_flight, Acquiring]) \<and>
   run [(0, Continues), (1, Continues), (0, Continues), (1, Continues), (0, Answer_401),
        (0, Continues), (0, Continues), (1, Continues), (0, Continues)]
     (False, replicate 2 Start) = (True, [Retrying Acquiring, Acquiring])"
  by code_simp

end
